theory Spec2Isabelle
  imports Main
begin

section \<open>Python values\<close>

text \<open>
  The SDK is dynamically typed: a field of a 402 response body is whatever the JSON
  document holds. \<open>pyval\<close> is the value \<^verbatim>\<open>response.json()\<close> can return, and also the
  value of \<^verbatim>\<open>headers.get(k)\<close> (\<open>JNull\<close> is \<^verbatim>\<open>None\<close>). A dict is the list of its
  items, looked up with \<open>map_of\<close>. Strings are over 8-bit characters (the Latin-1 code
  points, which is what \<^verbatim>\<open>requests\<close> decodes header values to). JSON numbers with a
  fraction or an exponent (Python floats) are not part of the model.
\<close>

datatype pyval =
    JNull
  | JBool bool
  | JInt int
  | JStr string
  | JList "pyval list"
  | JDict "(string \<times> pyval) list"

text \<open>
  Exceptions. \<open>TachiError\<close>, \<open>PaymentError\<close> and \<open>NetworkError\<close> are the SDK's own
  classes (message, code, details); the code of a \<open>PaymentError\<close> is always
  \<^verbatim>\<open>PAYMENT_ERROR\<close> and that of a \<open>NetworkError\<close> \<^verbatim>\<open>NETWORK_ERROR\<close>, see
  \<open>error_code\<close>. The others are exceptions of Python and of the libraries that the SDK
  does not catch. \<open>Unmodelled\<close> marks an input on which this model does not say what
  the library does (see \<open>Decimal_of_str\<close>, \<open>py_int_of_str\<close>): no theorem below
  draws a conclusion from it.

  An f-string is kept as the list of its pieces: literal text, interpolated integers
  and interpolated Python values.
\<close>

datatype frag = Lit string | Num int | Val pyval

type_synonym message = "frag list"

record PaymentInfo =
  amount :: pyval
  currency :: pyval
  network_name :: pyval
  chain_id :: int
  recipient :: string
  token_address :: string
  token_id :: pyval

datatype details =
    NoDetails
  | InfoDetails PaymentInfo
  | VerificationDetails string int
  | RequestDetails string string
  | BalanceDetails pyval string
  | FailureDetails PaymentInfo message

datatype error =
    TachiError message string details
  | PaymentError message details
  | NetworkError message details
  | ValueError
  | TypeError
  | AttributeError
  | InvalidOperation
  | ZeroDivisionError
  | LibraryError string
  | Unmodelled

fun error_code :: "error \<Rightarrow> string option" where
  "error_code (TachiError m c d) = Some c"
| "error_code (PaymentError m d) = Some ''PAYMENT_ERROR''"
| "error_code (NetworkError m d) = Some ''NETWORK_ERROR''"
| "error_code e = None"

fun error_details :: "error \<Rightarrow> details" where
  "error_details (TachiError m c d) = d"
| "error_details (PaymentError m d) = d"
| "error_details (NetworkError m d) = d"
| "error_details e = NoDetails"

fun is_PaymentError :: "error \<Rightarrow> bool" where
  "is_PaymentError (PaymentError m d) = True"
| "is_PaymentError e = False"

fun is_NetworkError :: "error \<Rightarrow> bool" where
  "is_NetworkError (NetworkError m d) = True"
| "is_NetworkError e = False"

text \<open>Truthiness.\<close>

fun truthy :: "pyval \<Rightarrow> bool" where
  "truthy JNull = False"
| "truthy (JBool b) = b"
| "truthy (JInt n) = (n \<noteq> 0)"
| "truthy (JStr s) = (s \<noteq> [])"
| "truthy (JList xs) = (xs \<noteq> [])"
| "truthy (JDict kvs) = (kvs \<noteq> [])"

text \<open>\<^verbatim>\<open>d.get(key, default)\<close>: only a dict has the method.\<close>

fun py_get :: "pyval \<Rightarrow> string \<Rightarrow> pyval \<Rightarrow> error + pyval" where
  "py_get (JDict kvs) k dflt = Inr (case map_of kvs k of None \<Rightarrow> dflt | Some v \<Rightarrow> v)"
| "py_get v k dflt = Inl AttributeError"

text \<open>\<^verbatim>\<open>headers.get(key)\<close> on the response headers: \<^verbatim>\<open>None\<close> when absent.\<close>

definition header_get :: "(string \<rightharpoonup> string) \<Rightarrow> string \<Rightarrow> pyval" where
  "header_get h k = (case h k of None \<Rightarrow> JNull | Some v \<Rightarrow> JStr v)"

section \<open>Characters, digits and \<^verbatim>\<open>str.strip\<close>\<close>

definition is_digit :: "char \<Rightarrow> bool" where
  "is_digit c = (c \<in> set ''0123456789'')"

definition is_hexdigit :: "char \<Rightarrow> bool" where
  "is_hexdigit c = (c \<in> set ''0123456789abcdefABCDEF'')"

text \<open>The Latin-1 characters that Python counts as whitespace.\<close>

definition is_space :: "char \<Rightarrow> bool" where
  "is_space c = (let n = (of_char c :: nat) in (9 \<le> n \<and> n \<le> 13) \<or> (28 \<le> n \<and> n \<le> 32) \<or> n = 133 \<or> n = 160)"

definition py_strip :: "string \<Rightarrow> string" where
  "py_strip s = rev (dropWhile is_space (rev (dropWhile is_space s)))"

definition digit_val :: "char \<Rightarrow> nat" where
  "digit_val c = of_char c - 48"

definition nat_of_digits :: "string \<Rightarrow> nat" where
  "nat_of_digits ds = foldl (\<lambda>acc c. 10 * acc + digit_val c) 0 ds"

definition digit_char :: "nat \<Rightarrow> char" where
  "digit_char d = ''0123456789'' ! d"

fun str_nat :: "nat \<Rightarrow> string" where
  "str_nat n = (if n < 10 then [digit_char n] else str_nat (n div 10) @ [digit_char (n mod 10)])"

declare str_nat.simps [simp del]

text \<open>
  Lower case of a single character. Only text that holds nothing but hex digits and
  the letter x is ever lower-cased and then looked at, so the ASCII letters suffice.
\<close>

definition ascii_lower :: "char \<Rightarrow> char" where
  "ascii_lower c =
     (if 65 \<le> (of_char c :: nat) \<and> (of_char c :: nat) \<le> 90
      then (case map_of (zip ''ABCDEFGHIJKLMNOPQRSTUVWXYZ'' ''abcdefghijklmnopqrstuvwxyz'') c of
              None \<Rightarrow> c
            | Some l \<Rightarrow> l)
      else c)"

text \<open>Splits an optional sign off: the flag says whether it was a minus.\<close>

fun split_sign :: "string \<Rightarrow> bool \<times> string" where
  "split_sign [] = (False, [])"
| "split_sign (c # cs) =
     (if c = CHR ''-'' then (True, cs) else if c = CHR ''+'' then (False, cs) else (False, c # cs))"

section \<open>The \<^verbatim>\<open>decimal\<close> module\<close>

text \<open>
  A finite \<^verbatim>\<open>Decimal\<close> is a sign, a coefficient and an exponent, and stands for
  \<open>\<plusminus> coefficient * 10 ^ exponent\<close>. Arithmetic runs in the default context:
  precision 28, rounding half-even. The model covers the finite numbers; infinities and
  NaNs are left out, and so are the context's exponent limits
  (\<open>Emax = 999999\<close>, \<open>Emin = -999999\<close>): \<open>Decimal_of_str\<close> answers \<open>Unmodelled\<close>
  for a special value and for a number so close to the limits that multiplying or
  dividing it by \<open>10 ^ 6\<close>, the only operations the SDK performs, could reach them.
\<close>

datatype decimal = Decimal (dsign: bool) (dcoeff: nat) (dexp: int)

definition prec :: nat where
  "prec = 28"

text \<open>\<^verbatim>\<open>len(str(n))\<close>\<close>

definition ndigits :: "nat \<Rightarrow> nat" where
  "ndigits n = length (str_nat n)"

text \<open>
  \<^verbatim>\<open>Decimal._fix\<close>: a coefficient of more than \<open>prec\<close> digits is cut to \<open>prec\<close>
  digits, rounding half-even; a carry into a 29th digit drops the last digit again.
  \<open>round_half_even q r m\<close> rounds the quotient \<open>q\<close> with remainder \<open>r\<close> of a division
  by \<open>m\<close>.
\<close>

definition round_half_even :: "nat \<Rightarrow> nat \<Rightarrow> nat \<Rightarrow> nat" where
  "round_half_even q r m = (if m < 2 * r \<or> (2 * r = m \<and> odd q) then q + 1 else q)"

definition dec_carry :: "bool \<Rightarrow> nat \<Rightarrow> int \<Rightarrow> decimal" where
  "dec_carry sg q e = (if prec < ndigits q then Decimal sg (q div 10) (e + 1) else Decimal sg q e)"

definition dec_round :: "bool \<Rightarrow> nat \<Rightarrow> int \<Rightarrow> nat \<Rightarrow> decimal" where
  "dec_round sg c e k =
     dec_carry sg (round_half_even (c div 10 ^ k) (c mod 10 ^ k) (10 ^ k)) (e + int k)"

definition dec_fix :: "decimal \<Rightarrow> decimal" where
  "dec_fix d =
     (if ndigits (dcoeff d) \<le> prec then d
      else dec_round (dsign d) (dcoeff d) (dexp d) (ndigits (dcoeff d) - prec))"

text \<open>\<^verbatim>\<open>Decimal(n)\<close> for a Python int.\<close>

definition Decimal_of_int :: "int \<Rightarrow> decimal" where
  "Decimal_of_int n = Decimal (n < 0) (nat \<bar>n\<bar>) 0"

text \<open>
  Where a quotient is exact, \<^verbatim>\<open>__truediv__\<close> removes trailing zeros of the
  coefficient as long as the exponent is below the ideal one:
  \<^verbatim>\<open>while exp < ideal_exp and coeff % 10 == 0: coeff //= 10; exp += 1\<close>
\<close>

function strip_zeros :: "nat \<Rightarrow> int \<Rightarrow> int \<Rightarrow> nat \<times> int" where
  "strip_zeros coeff exp ideal_exp =
     (if exp < ideal_exp \<and> coeff mod 10 = 0
      then strip_zeros (coeff div 10) (exp + 1) ideal_exp
      else (coeff, exp))"
  by pat_completeness auto
termination
  by (relation "measure (\<lambda>(coeff, exp, ideal_exp). nat (ideal_exp - exp))") auto

declare strip_zeros.simps [simp del]

text \<open>
  \<^verbatim>\<open>a / b\<close>. The dividend is scaled so that the integer quotient has \<open>prec + 1\<close>
  digits or more (\<open>shift\<close>); an inexact quotient whose last digit is 0 or 5 gets that
  digit raised by one, so that the rounding of \<open>dec_fix\<close> sees that there is a
  remainder; an exact one is brought towards the ideal exponent.
\<close>

definition scaled_num :: "nat \<Rightarrow> int \<Rightarrow> nat" where
  "scaled_num ca shift = (if 0 \<le> shift then ca * 10 ^ nat shift else ca)"

definition scaled_den :: "nat \<Rightarrow> int \<Rightarrow> nat" where
  "scaled_den cb shift = (if 0 \<le> shift then cb else cb * 10 ^ nat (- shift))"

definition dec_div_result :: "bool \<Rightarrow> nat \<Rightarrow> nat \<Rightarrow> int \<Rightarrow> int \<Rightarrow> decimal" where
  "dec_div_result sign coeff remainder exp ideal_exp =
     (if remainder \<noteq> 0
      then dec_fix (Decimal sign (if coeff mod 5 = 0 then coeff + 1 else coeff) exp)
      else (case strip_zeros coeff exp ideal_exp of
              (coeff', exp') \<Rightarrow> dec_fix (Decimal sign coeff' exp')))"

definition dec_div_shifted :: "bool \<Rightarrow> nat \<Rightarrow> nat \<Rightarrow> int \<Rightarrow> int \<Rightarrow> decimal" where
  "dec_div_shifted sign ca cb ideal_exp shift =
     dec_div_result sign
       (scaled_num ca shift div scaled_den cb shift)
       (scaled_num ca shift mod scaled_den cb shift)
       (ideal_exp - shift) ideal_exp"

definition dec_div :: "decimal \<Rightarrow> decimal \<Rightarrow> error + decimal" where
  "dec_div a b =
     (if dcoeff b = 0 then Inl (if dcoeff a = 0 then InvalidOperation else ZeroDivisionError)
      else if dcoeff a = 0 then Inr (Decimal (dsign a \<noteq> dsign b) 0 (dexp a - dexp b))
      else Inr (dec_div_shifted (dsign a \<noteq> dsign b) (dcoeff a) (dcoeff b) (dexp a - dexp b)
                  (int (ndigits (dcoeff b)) - int (ndigits (dcoeff a)) + int prec + 1)))"

text \<open>\<^verbatim>\<open>a * b\<close>\<close>

definition dec_mul :: "decimal \<Rightarrow> decimal \<Rightarrow> decimal" where
  "dec_mul a b = dec_fix (Decimal (dsign a \<noteq> dsign b) (dcoeff a * dcoeff b) (dexp a + dexp b))"

text \<open>\<^verbatim>\<open>int(d)\<close>: truncation towards zero.\<close>

definition dec_magnitude :: "decimal \<Rightarrow> int" where
  "dec_magnitude d =
     (if 0 \<le> dexp d then int (dcoeff d) * 10 ^ nat (dexp d)
      else int (dcoeff d div 10 ^ nat (- dexp d)))"

definition dec_int :: "decimal \<Rightarrow> int" where
  "dec_int d = (if dsign d then - dec_magnitude d else dec_magnitude d)"

text \<open>\<^verbatim>\<open>"%+d" % n\<close>\<close>

definition str_signed :: "int \<Rightarrow> string" where
  "str_signed n = (if n < 0 then CHR ''-'' # str_nat (nat (- n)) else CHR ''+'' # str_nat (nat n))"

text \<open>
  \<^verbatim>\<open>str(d)\<close>: plain notation when the exponent is at most 0 and more than -6 digits
  stand left of the point, scientific notation otherwise. \<open>dotplace\<close> is the number
  of digits of the coefficient that stand left of the point in the mantissa,
  \<open>leftdigits\<close> the number that stand left of the point in the value.
\<close>

definition dotplace_of :: "int \<Rightarrow> int \<Rightarrow> int" where
  "dotplace_of e leftdigits = (if e \<le> 0 \<and> - 6 < leftdigits then leftdigits else 1)"

definition mantissa_str :: "string \<Rightarrow> int \<Rightarrow> string" where
  "mantissa_str ds dotplace =
     (if dotplace \<le> 0 then ''0.'' @ replicate (nat (- dotplace)) CHR ''0'' @ ds
      else if int (length ds) \<le> dotplace
      then ds @ replicate (nat (dotplace - int (length ds))) CHR ''0''
      else take (nat dotplace) ds @ CHR ''.'' # drop (nat dotplace) ds)"

definition exponent_str :: "int \<Rightarrow> int \<Rightarrow> string" where
  "exponent_str leftdigits dotplace =
     (if leftdigits = dotplace then [] else CHR ''E'' # str_signed (leftdigits - dotplace))"

definition dec_str_at :: "string \<Rightarrow> int \<Rightarrow> int \<Rightarrow> string" where
  "dec_str_at ds leftdigits dotplace = mantissa_str ds dotplace @ exponent_str leftdigits dotplace"

definition dec_str :: "decimal \<Rightarrow> string" where
  "dec_str d =
     (if dsign d then ''-'' else [])
     @ dec_str_at (str_nat (dcoeff d)) (dexp d + int (ndigits (dcoeff d)))
         (dotplace_of (dexp d) (dexp d + int (ndigits (dcoeff d))))"

text \<open>
  \<^verbatim>\<open>Decimal(s)\<close> for a string: the text is stripped of surrounding whitespace and of
  every underscore, then read as \<^verbatim>\<open>[sign] digits [. digits] [E [sign] digits]\<close> with
  at least one digit before the exponent. The value is exact (no rounding at
  construction). Anything else raises \<^verbatim>\<open>decimal.InvalidOperation\<close>.
\<close>

definition is_special :: "string \<Rightarrow> bool" where
  "is_special s =
     (map ascii_lower s = ''inf'' \<or> map ascii_lower s = ''infinity''
      \<or> (map ascii_lower (take 3 s) = ''nan'' \<and> list_all is_digit (drop 3 s))
      \<or> (map ascii_lower (take 4 s) = ''snan'' \<and> list_all is_digit (drop 4 s)))"

definition in_modelled_range :: "decimal \<Rightarrow> bool" where
  "in_modelled_range d = (- 999000 \<le> dexp d \<and> dexp d + int (ndigits (dcoeff d)) \<le> 999000)"

definition signed :: "bool \<Rightarrow> nat \<Rightarrow> int" where
  "signed negative n = (if negative then - int n else int n)"

text \<open>The number is complete: sign, integer digits, fraction digits, exponent.\<close>

definition decimal_of_parts :: "bool \<Rightarrow> string \<Rightarrow> string \<Rightarrow> int \<Rightarrow> error + decimal" where
  "decimal_of_parts sg ip fp e =
     (if in_modelled_range (Decimal sg (nat_of_digits (ip @ fp)) (e - int (length fp)))
      then Inr (Decimal sg (nat_of_digits (ip @ fp)) (e - int (length fp)))
      else Inl Unmodelled)"

text \<open>After \<^verbatim>\<open>E\<close>: an optional sign and at least one digit, nothing else.\<close>

fun read_exponent_digits :: "bool \<Rightarrow> string \<Rightarrow> string \<Rightarrow> bool \<times> string \<Rightarrow> error + decimal" where
  "read_exponent_digits sg ip fp (esg, ed) =
     (if ed = [] \<or> \<not> list_all is_digit ed then Inl InvalidOperation
      else decimal_of_parts sg ip fp (signed esg (nat_of_digits ed)))"

text \<open>After the digits of the mantissa: the end, or an exponent.\<close>

fun read_exponent :: "bool \<Rightarrow> string \<Rightarrow> string \<Rightarrow> string \<Rightarrow> error + decimal" where
  "read_exponent sg ip fp [] =
     (if ip @ fp = [] then Inl InvalidOperation else decimal_of_parts sg ip fp 0)"
| "read_exponent sg ip fp (c # cs) =
     (if ip @ fp = [] then Inl InvalidOperation
      else if c = CHR ''e'' \<or> c = CHR ''E'' then read_exponent_digits sg ip fp (split_sign cs)
      else Inl InvalidOperation)"

text \<open>After the integer digits: an optional point and fraction digits.\<close>

fun read_fraction :: "bool \<Rightarrow> string \<Rightarrow> string \<Rightarrow> error + decimal" where
  "read_fraction sg ip [] = read_exponent sg ip [] []"
| "read_fraction sg ip (c # cs) =
     (if c = CHR ''.'' then read_exponent sg ip (takeWhile is_digit cs) (dropWhile is_digit cs)
      else read_exponent sg ip [] (c # cs))"

fun read_number :: "bool \<times> string \<Rightarrow> error + decimal" where
  "read_number (sg, r) =
     (if is_special r then Inl Unmodelled
      else read_fraction sg (takeWhile is_digit r) (dropWhile is_digit r))"

declare read_exponent_digits.simps [simp del] read_exponent.simps [simp del]
  read_fraction.simps [simp del] read_number.simps [simp del]

definition Decimal_of_str :: "string \<Rightarrow> error + decimal" where
  "Decimal_of_str v = read_number (split_sign (filter (\<lambda>c. c \<noteq> CHR ''_'') (py_strip v)))"

text \<open>
  \<^verbatim>\<open>Decimal(v)\<close> for the values a payment amount can be. A bool is an int in Python.
  What a list converts to depends on the implementation of the module.
\<close>

fun Decimal_of :: "pyval \<Rightarrow> error + decimal" where
  "Decimal_of (JStr s) = Decimal_of_str s"
| "Decimal_of (JInt n) = Inr (Decimal_of_int n)"
| "Decimal_of (JBool b) = Inr (Decimal_of_int (if b then 1 else 0))"
| "Decimal_of JNull = Inl TypeError"
| "Decimal_of (JDict kvs) = Inl TypeError"
| "Decimal_of (JList xs) = Inl Unmodelled"

section \<open>\<^verbatim>\<open>int(v)\<close>\<close>

text \<open>
  A string is stripped of whitespace and read as an optional sign and decimal digits,
  where single underscores may stand between digits. The whitespace that \<^verbatim>\<open>int\<close>
  strips is not that of \<^verbatim>\<open>str.strip\<close>: of the Latin-1 characters it is the code
  points 9 to 13, 32, 133 and 160, and not the separators 28 to 31: a digit that
  follows the code point 28 raises \<^verbatim>\<open>ValueError\<close>. Python 3.11 and later refuse
  more than 4300 digits, earlier versions do not: the model leaves that case open.
\<close>

definition is_int_space :: "char \<Rightarrow> bool" where
  "is_int_space c = (let n = (of_char c :: nat) in (9 \<le> n \<and> n \<le> 13) \<or> n = 32 \<or> n = 133 \<or> n = 160)"

definition int_strip :: "string \<Rightarrow> string" where
  "int_strip s = rev (dropWhile is_int_space (rev (dropWhile is_int_space s)))"

fun digits_with_underscores :: "string \<Rightarrow> bool" where
  "digits_with_underscores [] = False"
| "digits_with_underscores [c] = is_digit c"
| "digits_with_underscores (c # d # cs) =
     (is_digit c \<and> (if d = CHR ''_'' then digits_with_underscores cs else digits_with_underscores (d # cs)))"

fun read_int :: "bool \<times> string \<Rightarrow> error + int" where
  "read_int (sg, r) =
     (if \<not> digits_with_underscores r then Inl ValueError
      else if 4300 < length (filter (\<lambda>c. c \<noteq> CHR ''_'') r) then Inl Unmodelled
      else Inr (signed sg (nat_of_digits (filter (\<lambda>c. c \<noteq> CHR ''_'') r))))"

declare read_int.simps [simp del]

definition py_int_of_str :: "string \<Rightarrow> error + int" where
  "py_int_of_str v = read_int (split_sign (int_strip v))"

fun py_int :: "pyval \<Rightarrow> error + int" where
  "py_int (JStr s) = py_int_of_str s"
| "py_int (JInt n) = Inr n"
| "py_int (JBool b) = Inr (if b then 1 else 0)"
| "py_int v = Inl TypeError"

section \<open>\<^verbatim>\<open>Web3.to_checksum_address\<close>\<close>

text \<open>
  The function is \<^verbatim>\<open>eth_utils.to_checksum_address\<close>. It accepts a hex string of 40
  digits, with or without the prefix \<^verbatim>\<open>0x\<close>, in any capitalisation (the text is
  lower-cased before it is looked at, so a wrong checksum is not noticed), and raises
  \<^verbatim>\<open>ValueError\<close> for every other string. An int is taken through \<^verbatim>\<open>hex\<close>, a bool
  through \<^verbatim>\<open>0x0\<close> / \<^verbatim>\<open>0x1\<close>; other types raise \<^verbatim>\<open>TypeError\<close>.

  The result, the EIP-55 capitalisation of the address, is a function of its lower-case
  form (through Keccak-256). A \<^verbatim>\<open>ChecksumAddress\<close> is represented here by that
  lower-case form \<^verbatim>\<open>0x\<close> + 40 digits: the same address, the same length (42), and so
  the same truth value as the Python string.
\<close>

type_synonym ChecksumAddress = string

definition is_0x_prefixed :: "string \<Rightarrow> bool" where
  "is_0x_prefixed s = (take 2 s = ''0x'' \<or> take 2 s = ''0X'')"

definition remove_0x_prefix :: "string \<Rightarrow> string" where
  "remove_0x_prefix s = (if is_0x_prefixed s then drop 2 s else s)"

definition add_0x_prefix :: "string \<Rightarrow> string" where
  "add_0x_prefix s = (if is_0x_prefixed s then s else ''0x'' @ s)"

definition is_hexstr :: "string \<Rightarrow> bool" where
  "is_hexstr s = (s \<noteq> [] \<and> list_all is_hexdigit (remove_0x_prefix s))"

definition is_hex_address :: "string \<Rightarrow> bool" where
  "is_hex_address s = (is_hexstr s \<and> length (remove_0x_prefix s) = 40)"

definition hex_char :: "nat \<Rightarrow> char" where
  "hex_char d = ''0123456789abcdef'' ! d"

fun hex_nat :: "nat \<Rightarrow> string" where
  "hex_nat n = (if n < 16 then [hex_char n] else hex_nat (n div 16) @ [hex_char (n mod 16)])"

declare hex_nat.simps [simp del]

text \<open>\<^verbatim>\<open>hex(n)\<close>\<close>

definition py_hex :: "int \<Rightarrow> string" where
  "py_hex n = (if n < 0 then ''-0x'' @ hex_nat (nat (- n)) else ''0x'' @ hex_nat (nat n))"

text \<open>\<^verbatim>\<open>to_normalized_address\<close> on the hex text of the value\<close>

definition normalize_hex :: "string \<Rightarrow> error + ChecksumAddress" where
  "normalize_hex h =
     (let hex_address = map ascii_lower h
      in if is_hex_address hex_address then Inr hex_address else Inl ValueError)"

fun to_checksum_address :: "pyval \<Rightarrow> error + ChecksumAddress" where
  "to_checksum_address (JStr s) =
     (if remove_0x_prefix s \<noteq> [] \<and> \<not> is_hexstr s then Inl ValueError
      else normalize_hex (add_0x_prefix (map ascii_lower s)))"
| "to_checksum_address (JInt n) = normalize_hex (py_hex n)"
| "to_checksum_address (JBool b) = normalize_hex (if b then ''0x1'' else ''0x0'')"
| "to_checksum_address v = Inl TypeError"

section \<open>The payment terms parser\<close>

text \<open>
  What the parser reads of a \<^verbatim>\<open>requests.Response\<close>: the status code, the text, the
  headers and the JSON document of the body. The headers are a case-insensitive dict:
  the map is keyed by the lower-case header name. \<open>resp_json\<close> is \<open>None\<close> when the
  body is not JSON, where \<^verbatim>\<open>response.json()\<close> raises \<^verbatim>\<open>JSONDecodeError\<close>.
\<close>

record Response =
  resp_status_code :: int
  resp_text :: string
  resp_headers :: "string \<rightharpoonup> string"
  resp_json :: "pyval option"

text \<open>Sequencing of calls that may raise.\<close>

definition bind_e :: "error + 'a \<Rightarrow> ('a \<Rightarrow> error + 'b) \<Rightarrow> error + 'b" where
  "bind_e m f = (case m of Inl e \<Rightarrow> Inl e | Inr x \<Rightarrow> f x)"

text \<open>\<^verbatim>\<open>a or <expression>\<close>: the expression is evaluated only when \<open>a\<close> is falsy.\<close>

definition or_else :: "pyval \<Rightarrow> (error + pyval) \<Rightarrow> error + pyval" where
  "or_else a b = (if truthy a then Inr a else b)"

text \<open>\<^verbatim>\<open>body.get('payment', {}).get(key, default)\<close>\<close>

definition body_field :: "pyval \<Rightarrow> string \<Rightarrow> pyval \<Rightarrow> error + pyval" where
  "body_field body k dflt = bind_e (py_get body ''payment'' (JDict [])) (\<lambda>p. py_get p k dflt)"

text \<open>\<^verbatim>\<open>str(Decimal(price) / Decimal(10**6))\<close>\<close>

definition to_human_units :: "pyval \<Rightarrow> error + pyval" where
  "to_human_units price =
     bind_e (Decimal_of price) (\<lambda>d.
     bind_e (dec_div d (Decimal_of_int (10 ^ 6))) (\<lambda>q.
     Inr (JStr (dec_str q))))"

text \<open>
  \<^verbatim>\<open>TachiSDK._parse_payment_info\<close>, in three parts.

  \<open>validate_terms\<close> is the check after the terms are assembled:
  \<^verbatim>\<open>if not payment_info['recipient'] or not payment_info['token_address']: raise PaymentError(...)\<close>.
\<close>

definition validate_terms :: "PaymentInfo \<Rightarrow> error + PaymentInfo" where
  "validate_terms payment_info =
     (if recipient payment_info = [] \<or> token_address payment_info = []
      then Inl (PaymentError [Lit ''Invalid payment information in 402 response'']
                  (InfoDetails payment_info))
      else Inr payment_info)"

text \<open>
  \<open>payment_terms\<close> is the function's body from the line \<^verbatim>\<open>amount = price or ...\<close> on,
  given the body and the five header values the lines before it read (the local
  variables \<^verbatim>\<open>price\<close>, \<^verbatim>\<open>currency\<close>, \<^verbatim>\<open>recipient\<close>, \<^verbatim>\<open>token_address\<close>,
  \<^verbatim>\<open>chain_id\<close>). The keyword arguments of \<^verbatim>\<open>PaymentInfo(...)\<close> are evaluated from
  left to right, so the first call that raises decides the exception.
\<close>

definition payment_terms ::
  "pyval \<Rightarrow> pyval \<Rightarrow> pyval \<Rightarrow> pyval \<Rightarrow> pyval \<Rightarrow> pyval \<Rightarrow> error + PaymentInfo" where
  "payment_terms body price currency_h recipient_h token_address_h chain_id_h =
     bind_e (or_else price (body_field body ''amount'' (JStr ''0''))) (\<lambda>amount0.
     bind_e (if truthy price \<and> currency_h = JStr ''USDC'' then to_human_units price
             else Inr amount0) (\<lambda>amount1.
     bind_e (or_else currency_h (body_field body ''currency'' (JStr ''USDC''))) (\<lambda>currency1.
     bind_e (body_field body ''network'' (JStr ''Base'')) (\<lambda>network1.
     bind_e (or_else chain_id_h (body_field body ''chainId'' (JInt 8453))) (\<lambda>chain_id0.
     bind_e (py_int chain_id0) (\<lambda>chain_id1.
     bind_e (or_else recipient_h (body_field body ''recipient'' (JStr []))) (\<lambda>recipient0.
     bind_e (to_checksum_address recipient0) (\<lambda>recipient1.
     bind_e (or_else token_address_h (body_field body ''tokenAddress'' (JStr []))) (\<lambda>token0.
     bind_e (to_checksum_address token0) (\<lambda>token1.
     bind_e (body_field body ''tokenId'' JNull) (\<lambda>token_id1.
     validate_terms
       \<lparr>amount = amount1, currency = currency1, network_name = network1,
        chain_id = chain_id1, recipient = recipient1, token_address = token1,
        token_id = token_id1\<rparr>)))))))))))"

text \<open>The body is \<^verbatim>\<open>{}\<close> where the response is not JSON.\<close>

definition json_body :: "Response \<Rightarrow> pyval" where
  "json_body response = (case resp_json response of None \<Rightarrow> JDict [] | Some b \<Rightarrow> b)"

definition parse_payment_info :: "Response \<Rightarrow> error + PaymentInfo" where
  "parse_payment_info response =
     payment_terms (json_body response)
       (header_get (resp_headers response) ''x402-price'')
       (header_get (resp_headers response) ''x402-currency'')
       (header_get (resp_headers response) ''x402-recipient'')
       (header_get (resp_headers response) ''x402-contract'')
       (header_get (resp_headers response) ''x402-chain-id'')"

section \<open>The outside world: HTTP transport, RPC node, wallet\<close>

text \<open>
  Every call that leaves the process (an HTTP request, \<^verbatim>\<open>time.sleep\<close>, a call of the
  RPC node through \<^verbatim>\<open>web3\<close>, a signature by the local account) is an event. The SDK's
  operations take the list of the events so far and return it extended: explicit state
  passing, where the state is the history of the interaction. Each event records the
  call and what came back: \<open>Inl s\<close> is an exception whose \<^verbatim>\<open>str\<close> is \<open>s\<close>.

  A transaction hash is represented by the text \<^verbatim>\<open>.hex()\<close> gives for it; the dict
  that \<^verbatim>\<open>build_transaction\<close> returns is a dict of Python values; a signed raw
  transaction is a byte string.
\<close>

record Request =
  req_method :: string
  req_url :: string
  req_headers :: "string \<rightharpoonup> string"
  req_data :: "string option"
  req_timeout :: int

datatype contract_call =
    Approve ChecksumAddress int
  | PayPublisher ChecksumAddress int

record TxParams =
  tx_from :: ChecksumAddress
  tx_gas :: int
  tx_gasPrice :: int
  tx_nonce :: int

type_synonym tx_dict = "(string \<times> pyval) list"

datatype event =
    Session_request Request "string + Response"
  | Sleep int
  | Is_connected bool
  | BalanceOf ChecksumAddress ChecksumAddress "string + int"
  | Allowance ChecksumAddress ChecksumAddress ChecksumAddress "string + int"
  | Contract_function ChecksumAddress contract_call "string + unit"
  | Gas_price "string + int"
  | Get_transaction_count ChecksumAddress "string + int"
  | Build_transaction ChecksumAddress contract_call TxParams "string + tx_dict"
  | Sign_transaction tx_dict "string + string"
  | Send_raw_transaction string "string + string"
  | Wait_for_transaction_receipt string "string + unit"

type_synonym trace = "event list"

text \<open>
  The environment answers each call as a function of the whole history, which covers
  every deterministic server, node and wallet. \<open>session_request\<close> raises only
  \<^verbatim>\<open>requests.RequestException\<close> (a transport failure); \<open>from_key\<close> is
  \<^verbatim>\<open>Account.from_key(k).address\<close>.
\<close>

record env =
  session_request :: "trace \<Rightarrow> Request \<Rightarrow> string + Response"
  is_connected :: "trace \<Rightarrow> bool"
  from_key :: "string \<Rightarrow> string + ChecksumAddress"
  balanceOf :: "trace \<Rightarrow> ChecksumAddress \<Rightarrow> ChecksumAddress \<Rightarrow> string + int"
  allowance :: "trace \<Rightarrow> ChecksumAddress \<Rightarrow> ChecksumAddress \<Rightarrow> ChecksumAddress \<Rightarrow> string + int"
  contract_function :: "trace \<Rightarrow> ChecksumAddress \<Rightarrow> contract_call \<Rightarrow> string + unit"
  gas_price :: "trace \<Rightarrow> string + int"
  get_transaction_count :: "trace \<Rightarrow> ChecksumAddress \<Rightarrow> string + int"
  build_transaction :: "trace \<Rightarrow> ChecksumAddress \<Rightarrow> contract_call \<Rightarrow> TxParams \<Rightarrow> string + tx_dict"
  sign_transaction :: "trace \<Rightarrow> tx_dict \<Rightarrow> string + string"
  send_raw_transaction :: "trace \<Rightarrow> string \<Rightarrow> string + string"
  wait_for_transaction_receipt :: "trace \<Rightarrow> string \<Rightarrow> string + unit"

text \<open>An operation: from the history to a result or an exception, and the new history.\<close>

type_synonym 'a io = "trace \<Rightarrow> (error + 'a) \<times> trace"

definition io_return :: "'a \<Rightarrow> 'a io" where
  "io_return x tr = (Inr x, tr)"

definition io_raise :: "error \<Rightarrow> 'a io" where
  "io_raise e tr = (Inl e, tr)"

definition io_lift :: "error + 'a \<Rightarrow> 'a io" where
  "io_lift r tr = (r, tr)"

definition io_bind :: "'a io \<Rightarrow> ('a \<Rightarrow> 'b io) \<Rightarrow> 'b io" where
  "io_bind m f tr = (case m tr of (Inl e, tr') \<Rightarrow> (Inl e, tr') | (Inr x, tr') \<Rightarrow> f x tr')"

text \<open>\<^verbatim>\<open>try: m  except Exception as error: h(error)\<close>\<close>

definition io_catch :: "'a io \<Rightarrow> (error \<Rightarrow> 'a io) \<Rightarrow> 'a io" where
  "io_catch m h tr = (case m tr of (Inl e, tr') \<Rightarrow> h e tr' | (Inr x, tr') \<Rightarrow> (Inr x, tr'))"

text \<open>
  A call of the environment: the answer is logged with the call; an exception of the
  library travels as \<open>LibraryError\<close>.
\<close>

definition env_call :: "(trace \<Rightarrow> string + 'a) \<Rightarrow> ((string + 'a) \<Rightarrow> event) \<Rightarrow> 'a io" where
  "env_call f ev tr =
     (case f tr of Inl s \<Rightarrow> Inl (LibraryError s) | Inr x \<Rightarrow> Inr x, tr @ [ev (f tr)])"

text \<open>\<^verbatim>\<open>str(error)\<close> of a caught exception: the message it was raised with.\<close>

fun py_str_error :: "error \<Rightarrow> message" where
  "py_str_error (TachiError m c d) = m"
| "py_str_error (PaymentError m d) = m"
| "py_str_error (NetworkError m d) = m"
| "py_str_error (LibraryError s) = [Lit s]"
| "py_str_error e = []"

section \<open>Configuration and client\<close>

record TachiConfig =
  network :: string
  rpc_url :: string
  private_key :: "string option"
  account_address :: "ChecksumAddress option"
  usdc_address :: "ChecksumAddress option"
  payment_processor_address :: "ChecksumAddress option"
  user_agent :: string
  timeout :: int
  max_retries :: int

text \<open>
  \<^verbatim>\<open>TachiConfig.__post_init__\<close>: the default token address of the network. The two
  constants are the checksummed addresses of the source in their lower-case form.
\<close>

definition post_init :: "TachiConfig \<Rightarrow> TachiConfig" where
  "post_init c =
     (if usdc_address c = None then
        (if network c = ''base''
         then c\<lparr>usdc_address := Some ''0x833589fcd6edb6e08f4c7c32d4f71b54bda02913''\<rparr>
         else if network c = ''base-sepolia''
         then c\<lparr>usdc_address := Some ''0x036cbd53842c5426634e7929541ec2318f3dcf7e''\<rparr>
         else c)
      else c)"

text \<open>
  The client: its configuration and \<^verbatim>\<open>self.account\<close>, which is \<^verbatim>\<open>None\<close> or a local
  account, of which the SDK reads the address only.
\<close>

record TachiSDK =
  config :: TachiConfig
  account :: "ChecksumAddress option"

text \<open>\<^verbatim>\<open>TachiSDK._initialize_web3\<close>\<close>

definition initialize_web3 :: "env \<Rightarrow> TachiConfig \<Rightarrow> unit io" where
  "initialize_web3 e c tr =
     (if \<not> is_connected e tr
      then (Inl (NetworkError [Lit ''Failed to connect to RPC endpoint: '', Val (JStr (rpc_url c))]
                   NoDetails),
            tr @ [Is_connected False])
      else (Inr (), tr @ [Is_connected True]))"

text \<open>
  \<^verbatim>\<open>TachiSDK._initialize_account\<close>: an account exists only where a private key is
  configured; an account address alone is logged and nothing else.
\<close>

definition initialize_account :: "env \<Rightarrow> TachiConfig \<Rightarrow> error + ChecksumAddress option" where
  "initialize_account e c =
     (case private_key c of
        None \<Rightarrow> Inr None
      | Some k \<Rightarrow>
          if k = [] then Inr None
          else (case from_key e k of Inl s \<Rightarrow> Inl (LibraryError s) | Inr a \<Rightarrow> Inr (Some a)))"

text \<open>\<^verbatim>\<open>TachiSDK.__init__\<close>\<close>

definition TachiSDK_init :: "env \<Rightarrow> TachiConfig \<Rightarrow> TachiSDK io" where
  "TachiSDK_init e c =
     io_bind (initialize_web3 e c) (\<lambda>_.
     io_bind (io_lift (initialize_account e c)) (\<lambda>acc.
     io_return \<lparr>config = c, account = acc\<rparr>))"

section \<open>The HTTP fetch client\<close>

text \<open>
  \<^verbatim>\<open>TachiSDK._make_http_request\<close>. The loop
  \<^verbatim>\<open>for attempt in range(1, max_retries + 1)\<close> is a recursion on the attempt number.
  A response returns at once, whatever its status. A transport failure on the last
  attempt raises; on an earlier attempt the client sleeps \<^verbatim>\<open>2 ** attempt\<close> seconds
  and goes round again. The statement after the loop is reached only where the loop
  body never ran (\<open>max_retries < 1\<close>).
\<close>

function request_loop :: "env \<Rightarrow> TachiConfig \<Rightarrow> Request \<Rightarrow> string option \<Rightarrow> int \<Rightarrow> Response io" where
  "request_loop e c req last_error attempt tr =
     (if max_retries c < attempt
      then (Inl (NetworkError
                  [Lit ''Request failed: '', Val (case last_error of None \<Rightarrow> JNull | Some s \<Rightarrow> JStr s)]
                  NoDetails), tr)
      else
        (case session_request e tr req of
           Inr response \<Rightarrow> (Inr response, tr @ [Session_request req (Inr response)])
         | Inl err \<Rightarrow>
             if attempt = max_retries c
             then (Inl (NetworkError
                         [Lit ''Request failed after '', Num (max_retries c), Lit '' attempts'']
                         (RequestDetails (req_url req) err)),
                   tr @ [Session_request req (Inl err)])
             else request_loop e c req (Some err) (attempt + 1)
                    (tr @ [Session_request req (Inl err), Sleep (2 ^ nat attempt)])))"
  by pat_completeness auto
termination
  by (relation "measure (\<lambda>(e, c, req, last_error, attempt, tr). nat (max_retries c + 1 - attempt))") auto

declare request_loop.simps [simp del]

text \<open>
  The request every attempt sends: a copy of the caller's headers with the user agent
  set, and the configured timeout.
\<close>

definition http_request ::
  "TachiConfig \<Rightarrow> string \<Rightarrow> string \<Rightarrow> (string \<rightharpoonup> string) \<Rightarrow> string option \<Rightarrow> Request" where
  "http_request c url method hdrs body =
     \<lparr>req_method = method, req_url = url,
      req_headers = hdrs(''User-Agent'' \<mapsto> user_agent c),
      req_data = body, req_timeout = timeout c\<rparr>"

definition make_http_request ::
  "env \<Rightarrow> TachiConfig \<Rightarrow> string \<Rightarrow> string \<Rightarrow> (string \<rightharpoonup> string) \<Rightarrow> string option \<Rightarrow> Response io" where
  "make_http_request e c url method hdrs body =
     request_loop e c (http_request c url method hdrs body) None 1"

section \<open>The payment step\<close>

text \<open>\<^verbatim>\<open>int(Decimal(payment_info['amount']) * Decimal(10**6))\<close>\<close>

definition amount_in_wei_of :: "PaymentInfo \<Rightarrow> error + int" where
  "amount_in_wei_of payment_info =
     bind_e (Decimal_of (amount payment_info)) (\<lambda>d.
     Inr (dec_int (dec_mul d (Decimal_of_int (10 ^ 6)))))"

text \<open>\<^verbatim>\<open>str(Decimal(balance) / Decimal(10**6))\<close>\<close>

definition format_usdc :: "int \<Rightarrow> error + string" where
  "format_usdc balance =
     bind_e (dec_div (Decimal_of_int balance) (Decimal_of_int (10 ^ 6))) (\<lambda>q. Inr (dec_str q))"

text \<open>
  The approval and the payment are sent by the same sequence of calls (lines 377-393
  and 405-421 of the source): the contract function is bound to its arguments, the gas
  price and the nonce are read, the transaction is built, signed, sent, and its receipt
  awaited. The result is the hash of the transaction.
\<close>

text \<open>The dict given to \<^verbatim>\<open>build_transaction\<close>.\<close>

definition tx_params :: "ChecksumAddress \<Rightarrow> int \<Rightarrow> int \<Rightarrow> int \<Rightarrow> TxParams" where
  "tx_params sender gas price nonce =
     \<lparr>tx_from = sender, tx_gas = gas, tx_gasPrice = price, tx_nonce = nonce\<rparr>"

definition submit_transaction ::
  "env \<Rightarrow> ChecksumAddress \<Rightarrow> contract_call \<Rightarrow> ChecksumAddress \<Rightarrow> int \<Rightarrow> string io" where
  "submit_transaction e addr call sender gas =
     io_bind (env_call (\<lambda>tr. contract_function e tr addr call) (Contract_function addr call)) (\<lambda>_.
     io_bind (env_call (gas_price e) Gas_price) (\<lambda>price.
     io_bind (env_call (\<lambda>tr. get_transaction_count e tr sender) (Get_transaction_count sender)) (\<lambda>nonce.
     io_bind (env_call (\<lambda>tr. build_transaction e tr addr call (tx_params sender gas price nonce))
                (Build_transaction addr call (tx_params sender gas price nonce))) (\<lambda>tx.
     io_bind (env_call (\<lambda>tr. sign_transaction e tr tx) (Sign_transaction tx)) (\<lambda>raw.
     io_bind (env_call (\<lambda>tr. send_raw_transaction e tr raw) (Send_raw_transaction raw)) (\<lambda>tx_hash.
     io_bind (env_call (\<lambda>tr. wait_for_transaction_receipt e tr tx_hash)
                (Wait_for_transaction_receipt tx_hash)) (\<lambda>_.
     io_return tx_hash)))))))"

text \<open>The approval block: \<^verbatim>\<open>if allowance < amount_in_wei: ...\<close>\<close>

definition approve_if_needed ::
  "env \<Rightarrow> PaymentInfo \<Rightarrow> ChecksumAddress \<Rightarrow> int \<Rightarrow> int \<Rightarrow> unit io" where
  "approve_if_needed e payment_info address amount_in_wei allowance_now =
     (if allowance_now < amount_in_wei
      then io_bind (submit_transaction e (token_address payment_info)
                      (Approve (recipient payment_info) amount_in_wei) address 100000)
             (\<lambda>_. io_return ())
      else io_return ())"

text \<open>\<^verbatim>\<open>self.config.payment_processor_address or payment_info['recipient']\<close>\<close>

definition publisher_address_of :: "TachiSDK \<Rightarrow> PaymentInfo \<Rightarrow> ChecksumAddress" where
  "publisher_address_of sdk payment_info =
     (case payment_processor_address (config sdk) of
        None \<Rightarrow> recipient payment_info
      | Some a \<Rightarrow> if a = [] then recipient payment_info else a)"

text \<open>The body of the \<^verbatim>\<open>try\<close> block of \<^verbatim>\<open>_process_payment\<close>.\<close>

definition payment_steps :: "env \<Rightarrow> TachiSDK \<Rightarrow> PaymentInfo \<Rightarrow> ChecksumAddress \<Rightarrow> int \<Rightarrow> string io" where
  "payment_steps e sdk payment_info address amount_in_wei =
     io_bind (env_call (\<lambda>tr. balanceOf e tr (token_address payment_info) address)
                (BalanceOf (token_address payment_info) address)) (\<lambda>balance.
     if balance < amount_in_wei
     then io_bind (io_lift (format_usdc balance)) (\<lambda>available.
          io_raise (PaymentError
                      [Lit ''Insufficient USDC balance. Required: '', Val (amount payment_info),
                       Lit '', Available: '', Val (JStr available)]
                      (BalanceDetails (amount payment_info) available)))
     else
     io_bind (env_call (\<lambda>tr. allowance e tr (token_address payment_info) address (recipient payment_info))
                (Allowance (token_address payment_info) address (recipient payment_info))) (\<lambda>allowance_now.
     io_bind (approve_if_needed e payment_info address amount_in_wei allowance_now) (\<lambda>_.
     submit_transaction e (recipient payment_info)
       (PayPublisher (publisher_address_of sdk payment_info) amount_in_wei) address 200000)))"

text \<open>
  \<^verbatim>\<open>TachiSDK._process_payment\<close>. The account check and the conversion of the amount
  stand before the \<^verbatim>\<open>try\<close>; whatever the block raises, its own \<^verbatim>\<open>PaymentError\<close>
  for an insufficient balance included, is caught and raised again as a
  \<^verbatim>\<open>PaymentError\<close> that carries the payment terms and the text of the exception.
\<close>

definition process_payment :: "env \<Rightarrow> TachiSDK \<Rightarrow> PaymentInfo \<Rightarrow> string io" where
  "process_payment e sdk payment_info =
     (case account sdk of
        None \<Rightarrow>
          io_raise (PaymentError
                      [Lit ''Account not initialized. Private key required for payments.'']
                      NoDetails)
      | Some address \<Rightarrow>
          io_bind (io_lift (amount_in_wei_of payment_info)) (\<lambda>amount_in_wei.
          io_catch (payment_steps e sdk payment_info address amount_in_wei) (\<lambda>err.
            io_raise (PaymentError
                        (Lit ''Payment transaction failed: '' # py_str_error err)
                        (FailureDetails payment_info (py_str_error err))))))"

section \<open>Fetch with payment\<close>

record TachiResponse =
  content :: string
  status_code :: int
  headers :: "string \<rightharpoonup> string"
  payment_required :: bool
  payment_amount :: pyval
  transaction_hash :: "string option"

text \<open>
  \<^verbatim>\<open>TachiSDK.fetch_with_tachi\<close>. \<open>payment_amount\<close> is a Python value: \<open>JNull\<close> is
  \<^verbatim>\<open>None\<close>.

  \<open>headers_or_empty\<close> is \<^verbatim>\<open>headers = headers or {}\<close>; \<open>auth_headers\<close> is the copy
  of the caller's headers with the proof of payment,
  \<^verbatim>\<open>auth_headers['Authorization'] = f"Bearer {transaction_hash}"\<close>.
\<close>

definition headers_or_empty :: "(string \<rightharpoonup> string) option \<Rightarrow> (string \<rightharpoonup> string)" where
  "headers_or_empty headers_arg = (case headers_arg of None \<Rightarrow> Map.empty | Some h \<Rightarrow> h)"

definition auth_headers :: "(string \<rightharpoonup> string) \<Rightarrow> string \<Rightarrow> (string \<rightharpoonup> string)" where
  "auth_headers hdrs tx_hash = hdrs(''Authorization'' \<mapsto> ''Bearer '' @ tx_hash)"

text \<open>The result for a first response that asks for no payment.\<close>

definition unpaid_result :: "Response \<Rightarrow> TachiResponse" where
  "unpaid_result initial_response =
     \<lparr>content = resp_text initial_response,
      status_code = resp_status_code initial_response,
      headers = resp_headers initial_response,
      payment_required = False, payment_amount = JNull, transaction_hash = None\<rparr>"

text \<open>What follows the replayed request: the check of its status, and the result.\<close>

definition paid_result :: "PaymentInfo \<Rightarrow> string \<Rightarrow> Response \<Rightarrow> error + TachiResponse" where
  "paid_result payment_info tx_hash paid_response =
     (if resp_status_code paid_response \<noteq> 200
      then Inl (PaymentError
                  [Lit ''Payment verification failed: '', Num (resp_status_code paid_response)]
                  (VerificationDetails tx_hash (resp_status_code paid_response)))
      else Inr \<lparr>content = resp_text paid_response,
                status_code = resp_status_code paid_response,
                headers = resp_headers paid_response,
                payment_required = True, payment_amount = amount payment_info,
                transaction_hash = Some tx_hash\<rparr>)"

definition fetch_with_headers ::
  "env \<Rightarrow> TachiSDK \<Rightarrow> string \<Rightarrow> string \<Rightarrow> (string \<rightharpoonup> string) \<Rightarrow> string option
     \<Rightarrow> TachiResponse io" where
  "fetch_with_headers e sdk url method hdrs body =
     io_bind (make_http_request e (config sdk) url method hdrs body) (\<lambda>initial_response.
     if resp_status_code initial_response \<noteq> 402
     then io_return (unpaid_result initial_response)
     else
     io_bind (io_lift (parse_payment_info initial_response)) (\<lambda>payment_info.
     io_bind (process_payment e sdk payment_info) (\<lambda>tx_hash.
     io_bind (make_http_request e (config sdk) url method (auth_headers hdrs tx_hash) body)
       (\<lambda>paid_response.
     io_lift (paid_result payment_info tx_hash paid_response)))))"

definition fetch_with_tachi ::
  "env \<Rightarrow> TachiSDK \<Rightarrow> string \<Rightarrow> string \<Rightarrow> (string \<rightharpoonup> string) option \<Rightarrow> string option
     \<Rightarrow> TachiResponse io" where
  "fetch_with_tachi e sdk url method headers_arg body =
     fetch_with_headers e sdk url method (headers_or_empty headers_arg) body"

section \<open>Balance query\<close>

record Balance =
  wei :: int
  formatted :: string

text \<open>
  \<^verbatim>\<open>TachiSDK.get_usdc_balance\<close>. Without a token address (an unknown network and no
  address configured) the contract object has no address to call; the model leaves
  that case open.
\<close>

definition get_usdc_balance :: "env \<Rightarrow> TachiSDK \<Rightarrow> Balance io" where
  "get_usdc_balance e sdk =
     (case account sdk of
        None \<Rightarrow>
          io_raise (TachiError [Lit ''Account not initialized. Private key required.'']
                      ''CONFIG_ERROR'' NoDetails)
      | Some address \<Rightarrow>
          (case usdc_address (config sdk) of
             None \<Rightarrow> io_raise Unmodelled
           | Some token \<Rightarrow>
               io_bind (env_call (\<lambda>tr. balanceOf e tr token address) (BalanceOf token address)) (\<lambda>balance.
               io_bind (io_lift (format_usdc balance)) (\<lambda>text_amount.
               io_return \<lparr>wei = balance, formatted = text_amount\<rparr>))))"

section \<open>Reading a history\<close>

text \<open>The events an operation has added to the history \<open>tr\<close> it started from.\<close>

definition new_events :: "trace \<Rightarrow> trace \<Rightarrow> trace" where
  "new_events tr tr' = drop (length tr) tr'"

text \<open>The delays slept, in order, and the number of HTTP attempts.\<close>

fun delays :: "trace \<Rightarrow> int list" where
  "delays [] = []"
| "delays (Sleep d # evs) = d # delays evs"
| "delays (ev # evs) = delays evs"

fun attempts :: "trace \<Rightarrow> nat" where
  "attempts [] = 0"
| "attempts (Session_request req r # evs) = Suc (attempts evs)"
| "attempts (ev # evs) = attempts evs"

text \<open>
  The events by which a transaction comes about: binding the contract function,
  building, signing and sending the transaction, waiting for its receipt.
\<close>

fun is_transaction_event :: "event \<Rightarrow> bool" where
  "is_transaction_event (Contract_function a c r) = True"
| "is_transaction_event (Build_transaction a c p r) = True"
| "is_transaction_event (Sign_transaction tx r) = True"
| "is_transaction_event (Send_raw_transaction raw r) = True"
| "is_transaction_event (Wait_for_transaction_receipt h r) = True"
| "is_transaction_event ev = False"

fun is_approve :: "contract_call \<Rightarrow> bool" where
  "is_approve (Approve spender n) = True"
| "is_approve (PayPublisher publisher n) = False"

text \<open>The events that can only belong to an approval.\<close>

fun is_approval_event :: "event \<Rightarrow> bool" where
  "is_approval_event (Contract_function a c r) = is_approve c"
| "is_approval_event (Build_transaction a c p r) = is_approve c"
| "is_approval_event ev = False"

fun is_send :: "event \<Rightarrow> bool" where
  "is_send (Send_raw_transaction raw r) = True"
| "is_send ev = False"

section \<open>Example inputs\<close>

text \<open>
  A configuration with a signing key and two retries, the client it gives, a transport
  that refuses every connection, and a server behind a paywall: it answers 402 with the
  payment terms in the headers until a request carries an \<^verbatim>\<open>Authorization\<close> header,
  which it answers with the given status. The node reports the given balance and
  allowance and accepts every transaction.
\<close>

definition example_config :: TachiConfig where
  "example_config =
     \<lparr>network = ''base'', rpc_url = ''http://rpc'', private_key = Some ''k'',
      account_address = None,
      usdc_address = Some ''0x833589fcd6edb6e08f4c7c32d4f71b54bda02913'',
      payment_processor_address = None, user_agent = ''TachiSDK-Python/1.0'',
      timeout = 30, max_retries = 2\<rparr>"

definition example_sdk :: TachiSDK where
  "example_sdk = \<lparr>config = example_config, account = Some ''0x1111111111111111111111111111111111111111''\<rparr>"

definition paywall_response :: Response where
  "paywall_response =
     \<lparr>resp_status_code = 402, resp_text = ''Payment Required'',
      resp_headers =
        [''x402-price'' \<mapsto> ''1000000'', ''x402-currency'' \<mapsto> ''USDC'',
         ''x402-recipient'' \<mapsto> ''0x2222222222222222222222222222222222222222'',
         ''x402-contract'' \<mapsto> ''0xAAAAAAAAAAAAAAAAAAAAAAAAAAAAAAAAAAAAAAAA''],
      resp_json = None\<rparr>"

definition content_response :: "int \<Rightarrow> Response" where
  "content_response status =
     \<lparr>resp_status_code = status, resp_text = ''content'',
      resp_headers = Map.empty, resp_json = None\<rparr>"

definition paywall_env :: "int \<Rightarrow> int \<Rightarrow> int \<Rightarrow> env" where
  "paywall_env bal alw replay_status =
     \<lparr>session_request =
        (\<lambda>tr req. case req_headers req ''Authorization'' of
             None \<Rightarrow> Inr paywall_response
           | Some a \<Rightarrow> Inr (content_response replay_status)),
      is_connected = (\<lambda>tr. True),
      from_key = (\<lambda>k. Inr ''0x1111111111111111111111111111111111111111''),
      balanceOf = (\<lambda>tr t a. Inr bal),
      allowance = (\<lambda>tr t a s. Inr alw),
      contract_function = (\<lambda>tr a c. Inr ()),
      gas_price = (\<lambda>tr. Inr 1),
      get_transaction_count = (\<lambda>tr a. Inr 0),
      build_transaction = (\<lambda>tr a c p. Inr []),
      sign_transaction = (\<lambda>tr tx. Inr ''raw''),
      send_raw_transaction = (\<lambda>tr raw. Inr ''0xabc''),
      wait_for_transaction_receipt = (\<lambda>tr h. Inr ())\<rparr>"

text \<open>
  Two variants of the paywall's answer: one that names no recipient, in the headers or
  in the body, and one that gives the price without a currency header.
\<close>

definition no_recipient_response :: Response where
  "no_recipient_response =
     paywall_response\<lparr>resp_headers := (resp_headers paywall_response)(''x402-recipient'' := None),
                       resp_json := Some (JDict [])\<rparr>"

definition no_currency_response :: Response where
  "no_currency_response =
     paywall_response\<lparr>resp_headers := (resp_headers paywall_response)(''x402-currency'' := None)\<rparr>"

text \<open>The terms the paywall's answer parses to.\<close>

definition paywall_terms :: PaymentInfo where
  "paywall_terms =
     \<lparr>amount = JStr ''1'', currency = JStr ''USDC'', network_name = JStr ''Base'',
      chain_id = 8453, recipient = ''0x2222222222222222222222222222222222222222'',
      token_address = ''0xaaaaaaaaaaaaaaaaaaaaaaaaaaaaaaaaaaaaaaaa'', token_id = JNull\<rparr>"

text \<open>
  The request the example client sends for \<^verbatim>\<open>GET http://x\<close> with the given headers,
  and the events of a payment of the paywall's terms by the example client where the
  node reports the given balance and an allowance of 5000000 base units (so that no
  approval is needed).
\<close>

definition example_request :: "(string \<rightharpoonup> string) \<Rightarrow> Request" where
  "example_request hdrs = http_request example_config ''http://x'' ''GET'' hdrs None"

definition payment_events :: "int \<Rightarrow> trace" where
  "payment_events bal =
     [BalanceOf ''0xaaaaaaaaaaaaaaaaaaaaaaaaaaaaaaaaaaaaaaaa''
        ''0x1111111111111111111111111111111111111111'' (Inr bal),
      Allowance ''0xaaaaaaaaaaaaaaaaaaaaaaaaaaaaaaaaaaaaaaaa''
        ''0x1111111111111111111111111111111111111111''
        ''0x2222222222222222222222222222222222222222'' (Inr 5000000),
      Contract_function ''0x2222222222222222222222222222222222222222''
        (PayPublisher ''0x2222222222222222222222222222222222222222'' 1000000) (Inr ()),
      Gas_price (Inr 1),
      Get_transaction_count ''0x1111111111111111111111111111111111111111'' (Inr 0),
      Build_transaction ''0x2222222222222222222222222222222222222222''
        (PayPublisher ''0x2222222222222222222222222222222222222222'' 1000000)
        (tx_params ''0x1111111111111111111111111111111111111111'' 200000 1 0) (Inr []),
      Sign_transaction [] (Inr ''raw''),
      Send_raw_transaction ''raw'' (Inr ''0xabc''),
      Wait_for_transaction_receipt ''0xabc'' (Inr ())]"

text \<open>
  A configuration without a signing key that names an account address, and the client
  it gives.
\<close>

definition readonly_config :: TachiConfig where
  "readonly_config =
     example_config\<lparr>private_key := None,
                     account_address := Some ''0x1111111111111111111111111111111111111111''\<rparr>"

definition readonly_sdk :: TachiSDK where
  "readonly_sdk = \<lparr>config = readonly_config, account = None\<rparr>"

text \<open>The result of a paid fetch from the paywall.\<close>

definition paid_response :: TachiResponse where
  "paid_response =
     \<lparr>content = ''content'', status_code = 200, headers = Map.empty,
      payment_required = True, payment_amount = JStr ''1'',
      transaction_hash = Some ''0xabc''\<rparr>"

definition refusing_env :: env where
  "refusing_env = (paywall_env 0 0 200)\<lparr>session_request := (\<lambda>tr req. Inl ''Connection refused'')\<rparr>"

section \<open>Evaluating the library functions\<close>

text \<open>The equations by which the simplifier computes the models on concrete text.\<close>

lemmas char_eval =
  is_digit_def is_hexdigit_def is_space_def digit_val_def digit_char_def ascii_lower_def
  hex_char_def

lemmas decimal_eval =
  Decimal_of_str_def read_number.simps read_fraction.simps read_exponent.simps
  read_exponent_digits.simps py_strip_def nat_of_digits_def is_special_def
  in_modelled_range_def ndigits_def str_nat.simps signed_def decimal_of_parts_def
  Decimal_of_int_def prec_def dec_div_def dec_div_shifted_def dec_div_result_def
  scaled_num_def scaled_den_def strip_zeros.simps dec_fix_def dec_round_def dec_carry_def
  round_half_even_def dec_mul_def dec_int_def dec_magnitude_def dec_str_def dec_str_at_def
  mantissa_str_def exponent_str_def dotplace_of_def str_signed_def

lemmas address_eval =
  is_0x_prefixed_def remove_0x_prefix_def add_0x_prefix_def is_hexstr_def is_hex_address_def
  normalize_hex_def py_hex_def hex_nat.simps

lemmas parse_eval =
  parse_payment_info_def payment_terms_def validate_terms_def json_body_def header_get_def
  bind_e_def or_else_def body_field_def py_int_of_str_def read_int.simps int_strip_def
  is_int_space_def

lemma to_human_units_1000000: "to_human_units (JStr ''1000000'') = Inr (JStr ''1'')"
  by (simp add: to_human_units_def bind_e_def char_eval decimal_eval)

lemma Decimal_of_str_1000000: "Decimal_of_str ''1000000'' = Inr (Decimal False 1000000 0)"
  by (simp add: char_eval decimal_eval)

lemma parse_paywall_response: "parse_payment_info paywall_response = Inr paywall_terms"
  by (simp add: paywall_response_def paywall_terms_def parse_eval to_human_units_1000000
        char_eval address_eval)

text \<open>\<^verbatim>\<open>int\<close> does not strip the separators that \<^verbatim>\<open>str.strip\<close> strips.\<close>

lemma py_int_separator: "py_int (JStr [CHR 0x1C, CHR ''5'']) = Inl ValueError"
  by (simp add: parse_eval char_eval decimal_eval)

lemma py_int_stripped: "py_int (JStr '' 8_453 '') = Inr 8453"
  by (simp add: parse_eval char_eval decimal_eval)

lemma amount_in_wei_paywall_terms: "amount_in_wei_of paywall_terms = Inr 1000000"
  by (simp add: paywall_terms_def amount_in_wei_of_def bind_e_def char_eval decimal_eval)

section \<open>Which exceptions the library functions raise\<close>

lemma py_get_error: "py_get v k d = Inl e \<Longrightarrow> e = AttributeError"
  by (cases v) auto

lemma body_field_error: "body_field b k d = Inl e \<Longrightarrow> e = AttributeError"
  by (auto simp: body_field_def bind_e_def split: sum.splits dest: py_get_error)

lemma decimal_of_parts_error: "decimal_of_parts sg ip fp e = Inl err \<Longrightarrow> err = Unmodelled"
  by (simp add: decimal_of_parts_def split: if_splits)

lemma read_exponent_digits_error:
  "read_exponent_digits sg ip fp p = Inl e \<Longrightarrow> e = InvalidOperation \<or> e = Unmodelled"
  by (cases p)
     (auto simp: read_exponent_digits.simps split: if_splits dest: decimal_of_parts_error)

lemma read_exponent_error:
  "read_exponent sg ip fp r = Inl e \<Longrightarrow> e = InvalidOperation \<or> e = Unmodelled"
  by (cases r)
     (auto simp: read_exponent.simps split: if_splits
           dest: decimal_of_parts_error read_exponent_digits_error)

lemma read_fraction_error:
  "read_fraction sg ip r = Inl e \<Longrightarrow> e = InvalidOperation \<or> e = Unmodelled"
  by (cases r) (auto simp: read_fraction.simps split: if_splits dest: read_exponent_error)

lemma Decimal_of_str_error:
  "Decimal_of_str s = Inl e \<Longrightarrow> e = InvalidOperation \<or> e = Unmodelled"
  by (cases "split_sign (filter (\<lambda>c. c \<noteq> CHR ''_'') (py_strip s))")
     (auto simp: Decimal_of_str_def read_number.simps split: if_splits dest: read_fraction_error)

lemma Decimal_of_error:
  "Decimal_of v = Inl e \<Longrightarrow> e = InvalidOperation \<or> e = Unmodelled \<or> e = TypeError"
  by (cases v) (auto dest: Decimal_of_str_error)

lemma Decimal_of_not_None: "Decimal_of v = Inr d \<Longrightarrow> v \<noteq> JNull"
  by auto

lemma dec_div_error: "dec_div a b = Inl e \<Longrightarrow> e = InvalidOperation \<or> e = ZeroDivisionError"
  by (auto simp: dec_div_def split: if_splits)

lemma dec_div_by_nonzero: "dcoeff b \<noteq> 0 \<Longrightarrow> \<exists>q. dec_div a b = Inr q"
  by (simp add: dec_div_def)

lemma read_int_error: "read_int p = Inl e \<Longrightarrow> e = ValueError \<or> e = Unmodelled"
  by (cases p) (auto simp: read_int.simps split: if_splits)

lemma py_int_error: "py_int v = Inl e \<Longrightarrow> e = ValueError \<or> e = TypeError \<or> e = Unmodelled"
  by (cases v) (auto simp: py_int_of_str_def dest: read_int_error)

lemma normalize_hex_error: "normalize_hex h = Inl e \<Longrightarrow> e = ValueError"
  by (auto simp: normalize_hex_def Let_def split: if_splits)

lemma normalize_hex_result: "normalize_hex h = Inr a \<Longrightarrow> is_hex_address a"
  by (auto simp: normalize_hex_def Let_def split: if_splits)

lemma to_checksum_address_error:
  "to_checksum_address v = Inl e \<Longrightarrow> e = ValueError \<or> e = TypeError"
  by (cases v) (auto split: if_splits dest: normalize_hex_error)

lemma to_checksum_address_result: "to_checksum_address v = Inr a \<Longrightarrow> is_hex_address a"
  by (cases v) (auto split: if_splits dest: normalize_hex_result)

text \<open>A checksummed address is never the empty string.\<close>

lemma to_checksum_address_nonempty: "to_checksum_address v \<noteq> Inr []"
  by (auto dest!: to_checksum_address_result simp: is_hex_address_def is_hexstr_def)

text \<open>The empty string is no address: the conversion raises \<^verbatim>\<open>ValueError\<close>.\<close>

lemma to_checksum_address_empty: "to_checksum_address (JStr []) = Inl ValueError"
  by (simp add: address_eval char_eval)

lemma body_field_not_PaymentError: "body_field b k d0 \<noteq> Inl (PaymentError m d)"
  by (auto dest: body_field_error)

lemma or_else_not_PaymentError: "or_else a (body_field b k d0) \<noteq> Inl (PaymentError m d)"
  by (auto simp: or_else_def dest: body_field_error)

lemma to_human_units_not_PaymentError: "to_human_units v \<noteq> Inl (PaymentError m d)"
  by (auto simp: to_human_units_def bind_e_def split: sum.splits
           dest: Decimal_of_error dec_div_error)

lemma py_int_not_PaymentError: "py_int v \<noteq> Inl (PaymentError m d)"
  by (auto dest: py_int_error)

lemma to_checksum_address_not_PaymentError: "to_checksum_address v \<noteq> Inl (PaymentError m d)"
  by (auto dest: to_checksum_address_error)

section \<open>The payment terms parser: what it raises\<close>

lemma bind_e_neq:
  assumes "m \<noteq> Inl e" and "\<And>x. m = Inr x \<Longrightarrow> f x \<noteq> Inl e"
  shows "bind_e m f \<noteq> Inl e"
  using assms by (cases m) (simp_all add: bind_e_def)

lemma bind_e_Inr: "bind_e m f = Inr y \<longleftrightarrow> (\<exists>x. m = Inr x \<and> f x = Inr y)"
  by (cases m) (simp_all add: bind_e_def)

lemma validate_terms_not_PaymentError:
  assumes "recipient i \<noteq> []" and "token_address i \<noteq> []"
  shows "validate_terms i \<noteq> Inl (PaymentError m d)"
  using assms by (simp add: validate_terms_def)

lemma validate_terms_Inr: "validate_terms i = Inr j \<Longrightarrow> j = i"
  by (simp add: validate_terms_def split: if_splits)

lemma payment_terms_not_PaymentError:
  "payment_terms body price cur rcp tok cid \<noteq> Inl (PaymentError m d)"
  unfolding payment_terms_def
  by (intro bind_e_neq validate_terms_not_PaymentError)
     (auto simp: body_field_not_PaymentError or_else_not_PaymentError
        to_human_units_not_PaymentError py_int_not_PaymentError
        to_checksum_address_not_PaymentError to_checksum_address_nonempty)

text \<open>
  The parser never raises a \<open>PaymentError\<close>. Both addresses go through
  \<^verbatim>\<open>Web3.to_checksum_address\<close> while the terms are assembled; the conversion raises
  for everything that is not an address and never returns an empty string, so the
  check that follows, the only place where the parser raises a \<open>PaymentError\<close>,
  cannot fail.
\<close>

lemma parse_payment_info_not_PaymentError: "parse_payment_info r \<noteq> Inl (PaymentError m d)"
  by (simp add: parse_payment_info_def payment_terms_not_PaymentError)

text \<open>
  Where neither the headers nor the body name a recipient, the parser hands the
  default \<^verbatim>\<open>''\<close> to the conversion: parsing fails, and not with a \<open>PaymentError\<close>.
\<close>

lemma payment_terms_missing_recipient:
  assumes "or_else rcp (body_field body ''recipient'' (JStr [])) = Inr (JStr [])"
  shows "\<exists>e. payment_terms body price cur rcp tok cid = Inl e \<and> \<not> is_PaymentError e"
proof (cases "payment_terms body price cur rcp tok cid")
  case (Inl e)
  then show ?thesis
    using payment_terms_not_PaymentError [of body price cur rcp tok cid]
    by (cases e) auto
next
  case (Inr info)
  then have False
    using assms
    by (auto simp: payment_terms_def bind_e_Inr to_checksum_address_empty
          simp del: to_checksum_address.simps)
  then show ?thesis ..
qed

text \<open>
  Claim C1, at an input where it fails. The 402 response names no recipient, neither in
  its headers nor in its JSON body \<^verbatim>\<open>{}\<close>; everything else is in order. The claim
  asks for a \<open>PaymentError\<close> that carries the terms parsed so far; the code raises
  the \<^verbatim>\<open>ValueError\<close> of \<^verbatim>\<open>Web3.to_checksum_address('')\<close>.
\<close>

theorem parse_payment_info_missing_recipient:
  "parse_payment_info no_recipient_response = Inl ValueError"
  by (simp add: no_recipient_response_def paywall_response_def parse_eval
        to_human_units_1000000 to_checksum_address_empty
      del: to_checksum_address.simps)

section \<open>The payment terms parser: the amount\<close>

lemma payment_terms_amount:
  assumes "payment_terms body price cur rcp tok cid = Inr info"
  shows "(if truthy price \<and> cur = JStr ''USDC'' then to_human_units price
          else or_else price (body_field body ''amount'' (JStr ''0''))) = Inr (amount info)"
  using assms
  by (auto simp: payment_terms_def bind_e_Inr dest!: validate_terms_Inr split: if_splits)

text \<open>
  What the conversion yields for a price of 1000000 base units in USDC, whatever else
  the response holds: the text Python gives for the exact decimal quotient of 1000000
  by \<open>10 ^ 6\<close>, which is \<^verbatim>\<open>'1'\<close>. No binary floating point is involved: the
  quotient is computed on decimal coefficients.
\<close>

lemma parse_amount_of_1000000:
  assumes "resp_headers r ''x402-price'' = Some ''1000000''"
    and "resp_headers r ''x402-currency'' = Some ''USDC''"
    and "parse_payment_info r = Inr info"
  shows "amount info = JStr ''1''"
  using payment_terms_amount [OF assms(3) [unfolded parse_payment_info_def]] assms(1,2)
  by (simp add: header_get_def to_human_units_1000000)

text \<open>The same conversion prints ten units as \<^verbatim>\<open>'10'\<close> and half a unit as \<^verbatim>\<open>'0.5'\<close>.\<close>

lemma to_human_units_10000000: "to_human_units (JStr ''10000000'') = Inr (JStr ''10'')"
  by (simp add: to_human_units_def bind_e_def char_eval decimal_eval)

lemma to_human_units_500000: "to_human_units (JStr ''500000'') = Inr (JStr ''0.5'')"
  by (simp add: to_human_units_def bind_e_def char_eval decimal_eval)

text \<open>
  Claim C2, at an input where it fails. The 402 response names the price 1000000 and
  the currency USDC in its headers, with a valid recipient and a valid contract. The
  claim asks for the amount \<^verbatim>\<open>'1.0'\<close>, and so does the repository's test
  \<^verbatim>\<open>test_payment_amount_parsing\<close>, which expects \<^verbatim>\<open>'1.0'\<close> for 1000000 and
  \<^verbatim>\<open>'10.0'\<close> for 10000000; the code yields \<^verbatim>\<open>'1'\<close>, the text of
  \<^verbatim>\<open>Decimal('1000000') / Decimal(10 ** 6)\<close>.
\<close>

theorem parse_amount_paywall_response:
  "map_sum id amount (parse_payment_info paywall_response) = Inr (JStr ''1'')
   \<and> map_sum id amount (parse_payment_info paywall_response) \<noteq> Inr (JStr ''1.0'')"
  by (simp add: parse_paywall_response paywall_terms_def)

text \<open>
  Multiplying a whole number of at most 22 digits by \<open>10 ^ 6\<close> is exact: the product has
  at most 28 digits and is not rounded.
\<close>

lemma length_str_nat: "n < 10 ^ k \<Longrightarrow> 0 < k \<Longrightarrow> length (str_nat n) \<le> k"
proof (induction n arbitrary: k rule: str_nat.induct)
  case (1 n)
  show ?case
  proof (cases "n < 10")
    case True
    with "1.prems" show ?thesis by (simp add: str_nat.simps [of n])
  next
    case False
    with "1.prems" have k: "1 < k"
      by (cases k) (auto intro: ccontr)
    then obtain j where j: "k = Suc j" and "0 < j"
      by (cases k) auto
    with "1.prems" have "n div 10 < 10 ^ j"
      by (simp add: less_mult_imp_div_less mult.commute)
    with "1.IH" [OF False this \<open>0 < j\<close>] False j show ?thesis
      by (simp add: str_nat.simps [of n])
  qed
qed

lemma dec_mul_million:
  assumes "n < 10000000000000000000000"
  shows "dec_int (dec_mul (Decimal False n 0) (Decimal_of_int 1000000)) = int n * 1000000"
proof -
  have "n * 1000000 < 10 ^ 28"
    using assms by simp
  then have "ndigits (n * 1000000) \<le> prec"
    unfolding ndigits_def prec_def by (intro length_str_nat) simp_all
  then show ?thesis
    by (simp add: dec_mul_def Decimal_of_int_def dec_fix_def dec_int_def dec_magnitude_def)
qed

text \<open>
  Claim C3. The parser converts from base units only where the price header is given
  (not empty) and the currency header is literally USDC. In every other case the
  amount of the parsed terms is unconverted: the price header as it stands, or, without
  one, the amount of the body or its default. So where a price header \<open>p\<close> is given but
  the currency header is absent or different, the amount is the string \<open>p\<close>, also
  where the currency of the terms then defaults to USDC; and the payment step, which
  multiplies every amount by \<open>10 ^ 6\<close>, asks for \<open>n * 10 ^ 6\<close> base units where \<open>p\<close>
  stands for \<open>n\<close> base units.
\<close>

theorem parse_amount_unconverted:
  assumes "parse_payment_info r = Inr info"
    and "\<not> (truthy (header_get (resp_headers r) ''x402-price'')
            \<and> resp_headers r ''x402-currency'' = Some ''USDC'')"
  shows "or_else (header_get (resp_headers r) ''x402-price'')
           (body_field (json_body r) ''amount'' (JStr ''0'')) = Inr (amount info)
         \<and> (\<forall>p. resp_headers r ''x402-price'' = Some p \<and> p \<noteq> [] \<longrightarrow>
               amount info = JStr p
               \<and> (\<forall>n. Decimal_of_str p = Inr (Decimal False n 0) \<and> n < 10 ^ 22 \<longrightarrow>
                     amount_in_wei_of info = Inr (int n * 10 ^ 6)))"
proof -
  have c: "\<not> (truthy (header_get (resp_headers r) ''x402-price'')
               \<and> header_get (resp_headers r) ''x402-currency'' = JStr ''USDC'')"
    using assms(2) by (auto simp: header_get_def split: option.splits)
  have raw: "or_else (header_get (resp_headers r) ''x402-price'')
               (body_field (json_body r) ''amount'' (JStr ''0'')) = Inr (amount info)"
    using payment_terms_amount [OF assms(1) [unfolded parse_payment_info_def]] c
    by (simp split: if_splits)
  have "amount info = JStr p
        \<and> (\<forall>n. Decimal_of_str p = Inr (Decimal False n 0) \<and> n < 10 ^ 22 \<longrightarrow>
              amount_in_wei_of info = Inr (int n * 10 ^ 6))"
    if p: "resp_headers r ''x402-price'' = Some p" "p \<noteq> []" for p
  proof -
    have a: "amount info = JStr p"
      using raw p by (simp add: header_get_def or_else_def)
    then show ?thesis
      by (auto simp: amount_in_wei_of_def bind_e_def dec_mul_million)
  qed
  with raw show ?thesis by blast
qed

lemma parse_no_currency_response:
  "parse_payment_info no_currency_response = Inr (paywall_terms\<lparr>amount := JStr ''1000000''\<rparr>)"
  by (simp add: no_currency_response_def paywall_response_def paywall_terms_def parse_eval
        char_eval address_eval)

theorem parse_amount_unconverted_witness:
  "parse_payment_info no_currency_response = Inr (paywall_terms\<lparr>amount := JStr ''1000000''\<rparr>)
   \<and> resp_headers no_currency_response ''x402-currency'' = None
   \<and> currency (paywall_terms\<lparr>amount := JStr ''1000000''\<rparr>) = JStr ''USDC''
   \<and> amount (paywall_terms\<lparr>amount := JStr ''1000000''\<rparr>) = JStr ''1000000''
   \<and> amount_in_wei_of (paywall_terms\<lparr>amount := JStr ''1000000''\<rparr>) = Inr 1000000000000"
proof -
  have h: "\<not> (truthy (header_get (resp_headers no_currency_response) ''x402-price'')
               \<and> resp_headers no_currency_response ''x402-currency'' = Some ''USDC'')"
    by (simp add: no_currency_response_def paywall_response_def)
  have p: "resp_headers no_currency_response ''x402-price'' = Some ''1000000''"
    by (simp add: no_currency_response_def paywall_response_def)
  note inst =
    parse_amount_unconverted [OF parse_no_currency_response h, THEN conjunct2, rule_format,
      of "''1000000''", THEN conjunct2, rule_format, of 1000000]
  have "amount_in_wei_of (paywall_terms\<lparr>amount := JStr ''1000000''\<rparr>) = Inr (int 1000000 * 10 ^ 6)"
    by (rule inst) (simp_all add: p Decimal_of_str_1000000)
  then show ?thesis
    using parse_no_currency_response
    by (simp add: no_currency_response_def paywall_response_def paywall_terms_def)
qed

section \<open>The HTTP fetch client: retries and backoff\<close>

text \<open>
  Claim C5, as the code has it. With \<open>max_retries = 2\<close> and a transport that fails on
  both attempts, the client makes exactly two attempts and sleeps once, 2 seconds,
  between them; after the second failure it raises at once, without a further delay.
  The \<open>NetworkError\<close> carries the attempt count in its message, and the URL and the
  text of the last failure in its details.
\<close>

theorem make_http_request_two_attempts:
  assumes "max_retries c = 2"
    and "session_request e tr (http_request c url method hdrs body) = Inl s1"
    and "session_request e
           (tr @ [Session_request (http_request c url method hdrs body) (Inl s1), Sleep 2])
           (http_request c url method hdrs body) = Inl s2"
  shows "make_http_request e c url method hdrs body tr =
           (Inl (NetworkError [Lit ''Request failed after '', Num 2, Lit '' attempts'']
                   (RequestDetails url s2)),
            tr @ [Session_request (http_request c url method hdrs body) (Inl s1), Sleep 2,
                  Session_request (http_request c url method hdrs body) (Inl s2)])"
  using assms
  by (simp add: make_http_request_def http_request_def request_loop.simps)

theorem make_http_request_two_attempts_witness:
  "make_http_request refusing_env example_config ''http://x'' ''GET'' Map.empty None [] =
     (Inl (NetworkError [Lit ''Request failed after '', Num 2, Lit '' attempts'']
             (RequestDetails ''http://x'' ''Connection refused'')),
      [Session_request (http_request example_config ''http://x'' ''GET'' Map.empty None)
         (Inl ''Connection refused''),
       Sleep 2,
       Session_request (http_request example_config ''http://x'' ''GET'' Map.empty None)
         (Inl ''Connection refused'')])"
  using make_http_request_two_attempts
          [of example_config refusing_env "[]" "''http://x''" "''GET''" Map.empty None
              "''Connection refused''" "''Connection refused''"]
  by (simp add: example_config_def refusing_env_def)

text \<open>
  The claim as the specification words it asks for delays of 2 and 4: the second one
  does not happen.
\<close>

theorem make_http_request_delays_counterexample:
  "attempts (snd (make_http_request refusing_env example_config ''http://x'' ''GET'' Map.empty None [])) = 2
   \<and> delays (snd (make_http_request refusing_env example_config ''http://x'' ''GET'' Map.empty None [])) = [2]
   \<and> delays (snd (make_http_request refusing_env example_config ''http://x'' ''GET'' Map.empty None [])) \<noteq> [2, 4]"
  by (simp add: make_http_request_def request_loop.simps refusing_env_def example_config_def)

section \<open>Operations and their histories\<close>

lemma io_bind_Inr:
  "io_bind m f tr = (Inr y, tr') \<longleftrightarrow> (\<exists>x tr1. m tr = (Inr x, tr1) \<and> f x tr1 = (Inr y, tr'))"
  by (cases "m tr"; cases "fst (m tr)") (auto simp: io_bind_def)

lemma io_bind_ok: "m tr = (Inr x, tr1) \<Longrightarrow> io_bind m f tr = f x tr1"
  by (simp add: io_bind_def)

lemma io_bind_fail: "m tr = (Inl err, tr1) \<Longrightarrow> io_bind m f tr = (Inl err, tr1)"
  by (simp add: io_bind_def)

lemma io_lift_Inr: "io_lift r tr = (Inr y, tr') \<longleftrightarrow> r = Inr y \<and> tr' = tr"
  by (auto simp: io_lift_def)

lemma env_call_ok: "f tr = Inr x \<Longrightarrow> env_call f ev tr = (Inr x, tr @ [ev (Inr x)])"
  by (simp add: env_call_def)

lemma env_call_fail: "f tr = Inl s \<Longrightarrow> env_call f ev tr = (Inl (LibraryError s), tr @ [ev (Inl s)])"
  by (simp add: env_call_def)

lemma env_call_Inr:
  "env_call f ev tr = (Inr x, tr') \<longleftrightarrow> f tr = Inr x \<and> tr' = tr @ [ev (Inr x)]"
  by (cases "f tr") (auto simp: env_call_def)

lemma env_call_trace: "snd (env_call f ev tr) = tr @ [ev (f tr)]"
  by (simp add: env_call_def)

text \<open>The events an operation adds to the history it was given.\<close>

lemma format_usdc_total: "\<exists>s. format_usdc balance = Inr s"
proof -
  obtain q where "dec_div (Decimal_of_int balance) (Decimal_of_int (10 ^ 6)) = Inr q"
    using dec_div_by_nonzero [of "Decimal_of_int (10 ^ 6)" "Decimal_of_int balance"]
    by (auto simp: Decimal_of_int_def)
  then show ?thesis
    by (simp add: format_usdc_def bind_e_def)
qed

section \<open>The payment step: insufficient balance\<close>

text \<open>
  Claim C4. Where the account exists, the amount converts to \<open>required\<close> base units and
  the node reports a balance below it, the payment step raises a \<open>PaymentError\<close>, and
  the only event it adds to the history is the balance query: no contract function is
  bound, no transaction is built, signed or sent. The error is the one the
  \<^verbatim>\<open>except\<close> clause makes of the \<open>PaymentError\<close> for the insufficient balance.
\<close>

theorem insufficient_balance_no_transaction:
  assumes "account sdk = Some address"
    and "amount_in_wei_of info = Inr required"
    and "balanceOf e tr (token_address info) address = Inr balance"
    and "balance < required"
  shows "\<exists>available.
           format_usdc balance = Inr available
           \<and> process_payment e sdk info tr =
               (Inl (PaymentError
                       [Lit ''Payment transaction failed: '',
                        Lit ''Insufficient USDC balance. Required: '', Val (amount info),
                        Lit '', Available: '', Val (JStr available)]
                       (FailureDetails info
                          [Lit ''Insufficient USDC balance. Required: '', Val (amount info),
                           Lit '', Available: '', Val (JStr available)])),
                tr @ [BalanceOf (token_address info) address (Inr balance)])
           \<and> filter is_transaction_event
                 (new_events tr (snd (process_payment e sdk info tr))) = []"
proof -
  obtain available where a: "format_usdc balance = Inr available"
    using format_usdc_total by blast
  have "payment_steps e sdk info address required tr =
          (Inl (PaymentError
                  [Lit ''Insufficient USDC balance. Required: '', Val (amount info),
                   Lit '', Available: '', Val (JStr available)]
                  (BalanceDetails (amount info) available)),
           tr @ [BalanceOf (token_address info) address (Inr balance)])"
    using assms(3,4) a
    by (simp add: payment_steps_def io_bind_def env_call_def io_lift_def io_raise_def)
  then have "process_payment e sdk info tr =
               (Inl (PaymentError
                       [Lit ''Payment transaction failed: '',
                        Lit ''Insufficient USDC balance. Required: '', Val (amount info),
                        Lit '', Available: '', Val (JStr available)]
                       (FailureDetails info
                          [Lit ''Insufficient USDC balance. Required: '', Val (amount info),
                           Lit '', Available: '', Val (JStr available)])),
                tr @ [BalanceOf (token_address info) address (Inr balance)])"
    using assms(1,2)
    by (simp add: process_payment_def io_bind_def io_lift_def io_catch_def io_raise_def)
  with a show ?thesis
    by (simp add: new_events_def)
qed

lemma format_usdc_0: "format_usdc 0 = Inr ''0''"
  by (simp add: format_usdc_def bind_e_def char_eval decimal_eval)

lemma paywall_terms_fields:
  "amount paywall_terms = JStr ''1''"
  "recipient paywall_terms = ''0x2222222222222222222222222222222222222222''"
  "token_address paywall_terms = ''0xaaaaaaaaaaaaaaaaaaaaaaaaaaaaaaaaaaaaaaaa''"
  by (simp_all add: paywall_terms_def)

lemma example_sdk_fields:
  "account example_sdk = Some ''0x1111111111111111111111111111111111111111''"
  "payment_processor_address (config example_sdk) = None"
  "max_retries (config example_sdk) = 2"
  "user_agent (config example_sdk) = ''TachiSDK-Python/1.0''"
  "timeout (config example_sdk) = 30"
  by (simp_all add: example_sdk_def example_config_def)

theorem insufficient_balance_no_transaction_witness:
  "process_payment (paywall_env 0 0 200) example_sdk paywall_terms [] =
     (Inl (PaymentError
             [Lit ''Payment transaction failed: '',
              Lit ''Insufficient USDC balance. Required: '', Val (JStr ''1''),
              Lit '', Available: '', Val (JStr ''0'')]
             (FailureDetails paywall_terms
                [Lit ''Insufficient USDC balance. Required: '', Val (JStr ''1''),
                 Lit '', Available: '', Val (JStr ''0'')])),
      [BalanceOf ''0xaaaaaaaaaaaaaaaaaaaaaaaaaaaaaaaaaaaaaaaa''
         ''0x1111111111111111111111111111111111111111'' (Inr 0)])"
proof -
  have b: "balanceOf (paywall_env 0 0 200) [] (token_address paywall_terms)
             ''0x1111111111111111111111111111111111111111'' = Inr 0"
    by (simp add: paywall_env_def)
  have l: "(0::int) < 1000000"
    by simp
  from insufficient_balance_no_transaction
         [OF example_sdk_fields(1) amount_in_wei_paywall_terms b l]
  show ?thesis
    by (simp add: format_usdc_0 paywall_terms_fields)
qed

section \<open>The payment step: approval\<close>

text \<open>
  What one submission adds to the history: no allowance or balance query, an approval
  event only where the call is an approval, and at most one transaction sent.
\<close>

lemma submit_transaction_events:
  "\<exists>evs. snd (submit_transaction e addr call sender gas tr) = tr @ evs
         \<and> (list_ex is_approval_event evs \<longrightarrow> is_approve call)
         \<and> length (filter is_send evs) \<le> 1
         \<and> (evs \<noteq> [] \<and> hd evs = Contract_function addr call (contract_function e tr addr call))"
  by (cases "contract_function e tr addr call")
     (auto simp: submit_transaction_def io_bind_def env_call_def io_return_def
           split: sum.splits)

lemma submit_transaction_success:
  assumes "submit_transaction e addr call sender gas tr = (Inr h, tr')"
  shows "\<exists>pre raw. tr' = pre @ [Send_raw_transaction raw (Inr h),
                                  Wait_for_transaction_receipt h (Inr ())]"
  using assms
  by (auto simp: submit_transaction_def io_bind_Inr env_call_Inr io_return_def)

lemma approve_if_needed_noop:
  "required \<le> allowed \<Longrightarrow> approve_if_needed e info address required allowed = io_return ()"
  by (simp add: approve_if_needed_def)

lemma snd_io_catch_raise: "snd (io_catch m (\<lambda>err. io_raise (f err)) tr) = snd (m tr)"
  by (cases "m tr"; cases "fst (m tr)") (auto simp: io_catch_def io_raise_def)

lemma snd_process_payment:
  assumes "account sdk = Some address" and "amount_in_wei_of info = Inr required"
  shows "snd (process_payment e sdk info tr) = snd (payment_steps e sdk info address required tr)"
  using assms
  by (simp add: process_payment_def io_bind_def io_lift_def snd_io_catch_raise)

text \<open>The history of the payment step once the balance and the allowance are known.\<close>

lemma payment_steps_after_queries:
  assumes "balanceOf e tr (token_address info) address = Inr balance"
    and "required \<le> balance"
    and "allowance e (tr @ [BalanceOf (token_address info) address (Inr balance)])
           (token_address info) address (recipient info) = Inr allowed"
  shows "payment_steps e sdk info address required tr =
           io_bind (approve_if_needed e info address required allowed)
             (\<lambda>_. submit_transaction e (recipient info)
                     (PayPublisher (publisher_address_of sdk info) required) address 200000)
             (tr @ [BalanceOf (token_address info) address (Inr balance),
                    Allowance (token_address info) address (recipient info) (Inr allowed)])"
  using assms
  by (simp add: payment_steps_def io_bind_def env_call_def)

text \<open>
  Claim C8. Take a payment attempt that gets as far as the allowance query: the account
  exists, the amount converts to \<open>required\<close> base units, the balance suffices, and the
  node reports the allowance \<open>allowed\<close>. Where \<open>required \<le> allowed\<close> the approval step
  is a no-op that leaves the history as it is, the events of the whole attempt hold
  nothing that belongs to an approval, and at most one transaction, the payment, is
  sent. An approval is submitted only where \<open>allowed < required\<close>, and there the
  attempt does begin one.
\<close>

theorem approval_only_when_allowance_insufficient:
  assumes "account sdk = Some address"
    and "amount_in_wei_of info = Inr required"
    and "balanceOf e tr (token_address info) address = Inr balance"
    and "required \<le> balance"
    and "allowance e (tr @ [BalanceOf (token_address info) address (Inr balance)])
           (token_address info) address (recipient info) = Inr allowed"
  shows "(required \<le> allowed \<longrightarrow>
            approve_if_needed e info address required allowed = io_return ()
            \<and> \<not> list_ex is_approval_event (new_events tr (snd (process_payment e sdk info tr)))
            \<and> length (filter is_send (new_events tr (snd (process_payment e sdk info tr)))) \<le> 1)
         \<and> (allowed < required \<longrightarrow>
              list_ex is_approval_event (new_events tr (snd (process_payment e sdk info tr))))"
proof -
  let ?queries = "[BalanceOf (token_address info) address (Inr balance),
                   Allowance (token_address info) address (recipient info) (Inr allowed)]"
  let ?pay = "submit_transaction e (recipient info)
                (PayPublisher (publisher_address_of sdk info) required) address 200000"
  let ?approve = "submit_transaction e (token_address info)
                    (Approve (recipient info) required) address 100000"
  have steps: "snd (process_payment e sdk info tr) =
                 snd (io_bind (approve_if_needed e info address required allowed) (\<lambda>_. ?pay)
                        (tr @ ?queries))"
    using snd_process_payment [OF assms(1,2)] payment_steps_after_queries [OF assms(3,4,5)]
    by simp
  have sufficient: "\<not> list_ex is_approval_event (new_events tr (snd (process_payment e sdk info tr)))
                    \<and> length (filter is_send (new_events tr (snd (process_payment e sdk info tr)))) \<le> 1"
    if "required \<le> allowed"
  proof -
    obtain evs where evs: "snd (?pay (tr @ ?queries)) = (tr @ ?queries) @ evs"
        "list_ex is_approval_event evs \<longrightarrow> is_approve (PayPublisher (publisher_address_of sdk info) required)"
        "length (filter is_send evs) \<le> 1"
      using submit_transaction_events [of e "recipient info"
              "PayPublisher (publisher_address_of sdk info) required" address 200000 "tr @ ?queries"]
      by blast
    have "snd (process_payment e sdk info tr) = (tr @ ?queries) @ evs"
      using steps evs(1) that by (simp add: approve_if_needed_noop io_bind_def io_return_def)
    then show ?thesis
      using evs(2,3) by (simp add: new_events_def)
  qed
  have insufficient: "list_ex is_approval_event (new_events tr (snd (process_payment e sdk info tr)))"
    if "allowed < required"
  proof -
    obtain evs where evs: "snd (?approve (tr @ ?queries)) = (tr @ ?queries) @ evs"
        "evs \<noteq> []"
        "hd evs = Contract_function (token_address info) (Approve (recipient info) required)
                    (contract_function e (tr @ ?queries) (token_address info)
                       (Approve (recipient info) required))"
      using submit_transaction_events [of e "token_address info"
              "Approve (recipient info) required" address 100000 "tr @ ?queries"]
      by blast
    then have first: "list_ex is_approval_event evs"
      by (cases evs) auto
    obtain r tr1 where a: "?approve (tr @ ?queries) = (r, tr1)"
      by (cases "?approve (tr @ ?queries)") auto
    with evs(1) have tr1: "tr1 = (tr @ ?queries) @ evs"
      by simp
    have "\<exists>more. snd (process_payment e sdk info tr) = tr1 @ more"
    proof (cases r)
      case (Inl err)
      with a steps that show ?thesis
        by (simp add: approve_if_needed_def io_bind_def)
    next
      case (Inr h)
      obtain more where "snd (?pay tr1) = tr1 @ more"
        using submit_transaction_events [of e "recipient info"
                "PayPublisher (publisher_address_of sdk info) required" address 200000 tr1]
        by blast
      with Inr a steps that show ?thesis
        by (simp add: approve_if_needed_def io_bind_def io_return_def)
    qed
    then obtain more where "snd (process_payment e sdk info tr) = tr @ ?queries @ evs @ more"
      using tr1 by auto
    then show ?thesis
      using first by (simp add: new_events_def)
  qed
  from sufficient insufficient show ?thesis
    by (simp add: approve_if_needed_noop)
qed

theorem approval_only_when_allowance_insufficient_witness:
  "\<not> list_ex is_approval_event
       (new_events [] (snd (process_payment (paywall_env 2000000 5000000 200) example_sdk paywall_terms [])))
   \<and> length (filter is_send
       (new_events [] (snd (process_payment (paywall_env 2000000 5000000 200) example_sdk paywall_terms []))))
       \<le> 1
   \<and> list_ex is_approval_event
       (new_events [] (snd (process_payment (paywall_env 2000000 0 200) example_sdk paywall_terms [])))"
proof -
  have hi: "(1000000::int) \<le> 2000000"
    by simp
  have b: "balanceOf (paywall_env 2000000 alw 200) [] (token_address paywall_terms)
             ''0x1111111111111111111111111111111111111111'' = Inr 2000000" for alw
    by (simp add: paywall_env_def)
  have a: "allowance (paywall_env 2000000 alw 200)
             ([] @ [BalanceOf (token_address paywall_terms)
                      ''0x1111111111111111111111111111111111111111'' (Inr 2000000)])
             (token_address paywall_terms) ''0x1111111111111111111111111111111111111111''
             (recipient paywall_terms) = Inr alw" for alw
    by (simp add: paywall_env_def)
  from approval_only_when_allowance_insufficient
         [OF example_sdk_fields(1) amount_in_wei_paywall_terms b hi a, of 5000000]
       approval_only_when_allowance_insufficient
         [OF example_sdk_fields(1) amount_in_wei_paywall_terms b hi a, of 0]
  show ?thesis
    by simp
qed

section \<open>The HTTP fetch client: what it adds to the history\<close>

lemma request_loop_events:
  "\<exists>evs. snd (request_loop e c req last_error attempt tr) = tr @ evs
         \<and> (\<forall>ev \<in> set evs. (\<exists>r. ev = Session_request req r) \<or> (\<exists>d. ev = Sleep d))"
proof (induction e c req last_error attempt tr rule: request_loop.induct)
  case (1 e c req last_error attempt tr)
  show ?case
  proof (cases "max_retries c < attempt")
    case True
    then show ?thesis
      unfolding request_loop.simps [of e c req last_error attempt tr] by simp
  next
    case False
    show ?thesis
    proof (cases "session_request e tr req")
      case (Inr response)
      with False show ?thesis
        unfolding request_loop.simps [of e c req last_error attempt tr] by simp
    next
      case (Inl err)
      show ?thesis
      proof (cases "attempt = max_retries c")
        case True
        with False Inl show ?thesis
          unfolding request_loop.simps [of e c req last_error attempt tr] by simp
      next
        case last: False
        from "1.IH" [OF False Inl last]
        obtain evs where
          "snd (request_loop e c req (Some err) (attempt + 1)
                  (tr @ [Session_request req (Inl err), Sleep (2 ^ nat attempt)])) =
             (tr @ [Session_request req (Inl err), Sleep (2 ^ nat attempt)]) @ evs"
          "\<forall>ev \<in> set evs. (\<exists>r. ev = Session_request req r) \<or> (\<exists>d. ev = Sleep d)"
          by blast
        with False Inl last show ?thesis
          unfolding request_loop.simps [of e c req last_error attempt tr] by simp
      qed
    qed
  qed
qed

lemma request_loop_success:
  "request_loop e c req last_error attempt tr = (Inr response, tr') \<Longrightarrow>
     \<exists>pre. tr' = pre @ [Session_request req (Inr response)]"
proof (induction e c req last_error attempt tr rule: request_loop.induct)
  case (1 e c req last_error attempt tr)
  show ?case
  proof (cases "max_retries c < attempt")
    case True
    with "1.prems" show ?thesis
      unfolding request_loop.simps [of e c req last_error attempt tr] by auto
  next
    case False
    show ?thesis
    proof (cases "session_request e tr req")
      case (Inr r)
      with False "1.prems" show ?thesis
        unfolding request_loop.simps [of e c req last_error attempt tr] by auto
    next
      case (Inl err)
      show ?thesis
      proof (cases "attempt = max_retries c")
        case True
        with False Inl "1.prems" show ?thesis
          unfolding request_loop.simps [of e c req last_error attempt tr] by auto
      next
        case last: False
        with False Inl "1.prems" "1.IH" [OF False Inl last] show ?thesis
          unfolding request_loop.simps [of e c req last_error attempt tr] by auto
      qed
    qed
  qed
qed

lemma make_http_request_events:
  "\<exists>evs. snd (make_http_request e c url method hdrs body tr) = tr @ evs
         \<and> (\<forall>ev \<in> set evs. (\<exists>r. ev = Session_request (http_request c url method hdrs body) r)
                           \<or> (\<exists>d. ev = Sleep d))"
  unfolding make_http_request_def by (rule request_loop_events)

lemma make_http_request_success:
  "make_http_request e c url method hdrs body tr = (Inr response, tr') \<Longrightarrow>
     \<exists>pre. tr' = pre @ [Session_request (http_request c url method hdrs body) (Inr response)]"
  unfolding make_http_request_def by (rule request_loop_success)

section \<open>The payment step: success\<close>

lemma io_catch_raise_Inr:
  "io_catch m (\<lambda>err. io_raise (f err)) tr = (Inr x, tr') \<longleftrightarrow> m tr = (Inr x, tr')"
  by (cases "m tr"; cases "fst (m tr)") (auto simp: io_catch_def io_raise_def)

lemma io_raise_not_Inr: "io_raise err tr \<noteq> (Inr x, tr')"
  by (simp add: io_raise_def)

lemma payment_steps_success:
  assumes "payment_steps e sdk info address required tr = (Inr h, tr')"
  shows "\<exists>pre raw. tr' = pre @ [Send_raw_transaction raw (Inr h),
                                  Wait_for_transaction_receipt h (Inr ())]"
  using assms
  by (auto simp: payment_steps_def io_bind_Inr io_raise_not_Inr
           split: if_splits dest: submit_transaction_success)

text \<open>
  A payment step that returns a hash has an account, could convert the amount, and ends
  on the transaction whose sending returned that hash and on the wait for its receipt.
\<close>

lemma process_payment_success:
  assumes "process_payment e sdk info tr = (Inr h, tr')"
  shows "account sdk \<noteq> None
         \<and> (\<exists>required. amount_in_wei_of info = Inr required)
         \<and> (\<exists>pre raw. tr' = pre @ [Send_raw_transaction raw (Inr h),
                                     Wait_for_transaction_receipt h (Inr ())])"
  using assms
  by (auto simp: process_payment_def io_bind_Inr io_lift_Inr io_catch_raise_Inr io_raise_not_Inr
           split: option.splits dest: payment_steps_success)

lemma amount_in_wei_of_not_None: "amount_in_wei_of info = Inr required \<Longrightarrow> amount info \<noteq> JNull"
  by (auto simp: amount_in_wei_of_def bind_e_Inr)

section \<open>Fetch with payment: the results\<close>

text \<open>The two ways in which a fetch returns a result.\<close>

lemma fetch_with_tachi_Inr:
  "fetch_with_tachi e sdk url method headers_arg body tr = (Inr res, tr') \<longleftrightarrow>
     (\<exists>r0 tr1.
        make_http_request e (config sdk) url method (headers_or_empty headers_arg) body tr
          = (Inr r0, tr1)
        \<and> (resp_status_code r0 \<noteq> 402 \<and> res = unpaid_result r0 \<and> tr' = tr1
            \<or> resp_status_code r0 = 402
              \<and> (\<exists>info h tr2 r1.
                    parse_payment_info r0 = Inr info
                    \<and> process_payment e sdk info tr1 = (Inr h, tr2)
                    \<and> make_http_request e (config sdk) url method
                          (auth_headers (headers_or_empty headers_arg) h) body tr2 = (Inr r1, tr')
                    \<and> paid_result info h r1 = Inr res)))"
  by (auto simp: fetch_with_tachi_def fetch_with_headers_def io_bind_Inr io_lift_Inr io_return_def)

lemma paid_result_Inr:
  "paid_result info h r1 = Inr res \<longleftrightarrow>
     resp_status_code r1 = 200
     \<and> res = \<lparr>content = resp_text r1, status_code = 200, headers = resp_headers r1,
               payment_required = True, payment_amount = amount info,
               transaction_hash = Some h\<rparr>"
  by (auto simp: paid_result_def)

text \<open>
  Claim C7. In every result of a fetch, the payment amount and the transaction hash are
  both present where \<open>payment_required\<close> is true and both absent where it is false; and
  \<open>payment_required\<close> is true exactly where the first response had status 402. The
  amount of a paid result is present because the payment step, which has succeeded,
  converted it with \<^verbatim>\<open>Decimal\<close>, and \<^verbatim>\<open>Decimal(None)\<close> raises.
\<close>

theorem payment_fields_iff_payment_required:
  assumes "fetch_with_tachi e sdk url method headers_arg body tr = (Inr res, tr')"
  shows "((payment_amount res \<noteq> JNull \<and> transaction_hash res \<noteq> None) \<longleftrightarrow> payment_required res)
         \<and> (\<not> payment_required res \<longrightarrow> payment_amount res = JNull \<and> transaction_hash res = None)
         \<and> (\<exists>r0 tr1.
               make_http_request e (config sdk) url method (headers_or_empty headers_arg) body tr
                 = (Inr r0, tr1)
               \<and> payment_required res = (resp_status_code r0 = 402))"
proof -
  from assms obtain r0 tr1 where
    first: "make_http_request e (config sdk) url method (headers_or_empty headers_arg) body tr
              = (Inr r0, tr1)"
    and cases: "resp_status_code r0 \<noteq> 402 \<and> res = unpaid_result r0 \<and> tr' = tr1
            \<or> resp_status_code r0 = 402
              \<and> (\<exists>info h tr2 r1.
                    parse_payment_info r0 = Inr info
                    \<and> process_payment e sdk info tr1 = (Inr h, tr2)
                    \<and> make_http_request e (config sdk) url method
                          (auth_headers (headers_or_empty headers_arg) h) body tr2 = (Inr r1, tr')
                    \<and> paid_result info h r1 = Inr res)"
    unfolding fetch_with_tachi_Inr by blast
  from cases show ?thesis
  proof
    assume "resp_status_code r0 \<noteq> 402 \<and> res = unpaid_result r0 \<and> tr' = tr1"
    with first show ?thesis
      by (auto simp: unpaid_result_def)
  next
    assume paid: "resp_status_code r0 = 402
              \<and> (\<exists>info h tr2 r1.
                    parse_payment_info r0 = Inr info
                    \<and> process_payment e sdk info tr1 = (Inr h, tr2)
                    \<and> make_http_request e (config sdk) url method
                          (auth_headers (headers_or_empty headers_arg) h) body tr2 = (Inr r1, tr')
                    \<and> paid_result info h r1 = Inr res)"
    then obtain info h tr2 r1 where
      p: "process_payment e sdk info tr1 = (Inr h, tr2)" and r: "paid_result info h r1 = Inr res"
      by blast
    from process_payment_success [OF p] have "amount info \<noteq> JNull"
      by (auto dest: amount_in_wei_of_not_None)
    with r paid first show ?thesis
      by (auto simp: paid_result_Inr)
  qed
qed

text \<open>
  Claim C9. Every paid fetch that returns a result went through a payment step that
  returned the hash \<open>h\<close>, the hash that sending the payment transaction returned; every
  request sent after the payment carries the header \<^verbatim>\<open>Authorization: Bearer h\<close>, the
  last of them was answered with status 200, and \<open>h\<close> is the transaction hash of the
  result.
\<close>

theorem proof_header_is_payment_hash:
  assumes "fetch_with_tachi e sdk url method headers_arg body tr = (Inr res, tr')"
    and "payment_required res"
  shows "\<exists>h r0 tr1 info tr2 pre raw.
           make_http_request e (config sdk) url method (headers_or_empty headers_arg) body tr
             = (Inr r0, tr1)
           \<and> parse_payment_info r0 = Inr info
           \<and> process_payment e sdk info tr1 = (Inr h, tr2)
           \<and> tr2 = pre @ [Send_raw_transaction raw (Inr h), Wait_for_transaction_receipt h (Inr ())]
           \<and> transaction_hash res = Some h
           \<and> (\<forall>req r. Session_request req r \<in> set (new_events tr2 tr') \<longrightarrow>
                  req_headers req ''Authorization'' = Some (''Bearer '' @ h))
           \<and> (\<exists>req r1. last tr' = Session_request req (Inr r1)
                  \<and> req_headers req ''Authorization'' = Some (''Bearer '' @ h)
                  \<and> resp_status_code r1 = 200)"
proof -
  from assms obtain r0 tr1 info h tr2 r1 where
    first: "make_http_request e (config sdk) url method (headers_or_empty headers_arg) body tr
              = (Inr r0, tr1)"
    and parse: "parse_payment_info r0 = Inr info"
    and pay: "process_payment e sdk info tr1 = (Inr h, tr2)"
    and replay: "make_http_request e (config sdk) url method
                   (auth_headers (headers_or_empty headers_arg) h) body tr2 = (Inr r1, tr')"
    and res: "paid_result info h r1 = Inr res"
    unfolding fetch_with_tachi_Inr by (auto simp: unpaid_result_def)
  let ?req = "http_request (config sdk) url method (auth_headers (headers_or_empty headers_arg) h) body"
  have auth: "req_headers ?req ''Authorization'' = Some (''Bearer '' @ h)"
    by (simp add: http_request_def auth_headers_def)
  from process_payment_success [OF pay] obtain pre raw where
    sent: "tr2 = pre @ [Send_raw_transaction raw (Inr h), Wait_for_transaction_receipt h (Inr ())]"
    by blast
  from make_http_request_events
         [of e "config sdk" url "method" "auth_headers (headers_or_empty headers_arg) h" body tr2]
       replay
  obtain evs where evs: "tr' = tr2 @ evs"
    "\<forall>ev \<in> set evs. (\<exists>r. ev = Session_request ?req r) \<or> (\<exists>d. ev = Sleep d)"
    by auto
  have every: "\<forall>req r. Session_request req r \<in> set (new_events tr2 tr') \<longrightarrow>
                 req_headers req ''Authorization'' = Some (''Bearer '' @ h)"
    using evs auth by (auto simp: new_events_def)
  from make_http_request_success [OF replay] obtain pre' where
    "tr' = pre' @ [Session_request ?req (Inr r1)]"
    by blast
  then have "last tr' = Session_request ?req (Inr r1)"
    by simp
  with auth res have final: "\<exists>req r1. last tr' = Session_request req (Inr r1)
                  \<and> req_headers req ''Authorization'' = Some (''Bearer '' @ h)
                  \<and> resp_status_code r1 = 200"
    by (auto simp: paid_result_Inr)
  from res have "transaction_hash res = Some h"
    by (auto simp: paid_result_Inr)
  with first parse pay sent every final show ?thesis
    by blast
qed

text \<open>
  Claim C10. Where the first response has status 402, the terms parse, the payment step
  returns the hash \<open>h\<close> (the transaction is confirmed), and the replayed request is
  answered with a status other than 200, the fetch raises a \<open>PaymentError\<close> whose
  details are that hash and that status. It returns no result.
\<close>

theorem failed_replay_raises_PaymentError:
  assumes "make_http_request e (config sdk) url method (headers_or_empty headers_arg) body tr
             = (Inr r0, tr1)"
    and "resp_status_code r0 = 402"
    and "parse_payment_info r0 = Inr info"
    and "process_payment e sdk info tr1 = (Inr h, tr2)"
    and "make_http_request e (config sdk) url method
           (auth_headers (headers_or_empty headers_arg) h) body tr2 = (Inr r1, tr3)"
    and "resp_status_code r1 \<noteq> 200"
  shows "fetch_with_tachi e sdk url method headers_arg body tr =
           (Inl (PaymentError
                   [Lit ''Payment verification failed: '', Num (resp_status_code r1)]
                   (VerificationDetails h (resp_status_code r1))),
            tr3)"
  using assms
  by (simp add: fetch_with_tachi_def fetch_with_headers_def io_bind_def io_lift_def
        paid_result_def)

text \<open>A paid fetch returns a result only with status 200.\<close>

lemma paid_result_status:
  assumes "fetch_with_tachi e sdk url method headers_arg body tr = (Inr res, tr')"
    and "payment_required res"
  shows "status_code res = 200"
  using assms unfolding fetch_with_tachi_Inr
  by (auto simp: unpaid_result_def paid_result_Inr)

section \<open>The example run\<close>

lemma example_sdk_config: "config example_sdk = example_config"
  by (simp add: example_sdk_def)

lemma paywall_response_status: "resp_status_code paywall_response = 402"
  by (simp add: paywall_response_def)

lemma first_request_example:
  "make_http_request (paywall_env bal alw status) example_config ''http://x'' ''GET'' Map.empty None tr =
     (Inr paywall_response, tr @ [Session_request (example_request Map.empty) (Inr paywall_response)])"
  by (simp add: make_http_request_def request_loop.simps example_request_def http_request_def
        paywall_env_def example_config_def)

lemma replay_request_example:
  "make_http_request (paywall_env bal alw status) example_config ''http://x'' ''GET''
       (auth_headers Map.empty h) None tr =
     (Inr (content_response status),
      tr @ [Session_request (example_request (auth_headers Map.empty h))
              (Inr (content_response status))])"
  by (simp add: make_http_request_def request_loop.simps example_request_def http_request_def
        paywall_env_def example_config_def auth_headers_def)

lemma process_payment_example:
  "1000000 \<le> bal \<Longrightarrow>
   process_payment (paywall_env bal 5000000 status) example_sdk paywall_terms tr =
     (Inr ''0xabc'', tr @ payment_events bal)"
  by (simp add: process_payment_def example_sdk_fields amount_in_wei_paywall_terms
        payment_steps_def approve_if_needed_def submit_transaction_def publisher_address_of_def
        paywall_terms_fields io_bind_def io_lift_def io_catch_def io_return_def env_call_def
        paywall_env_def payment_events_def)

lemma fetch_paid_example:
  "fetch_with_tachi (paywall_env 2000000 5000000 200) example_sdk ''http://x'' ''GET'' None None [] =
     (Inr paid_response,
      Session_request (example_request Map.empty) (Inr paywall_response)
      # payment_events 2000000
      @ [Session_request (example_request (auth_headers Map.empty ''0xabc''))
           (Inr (content_response 200))])"
  by (simp add: fetch_with_tachi_def fetch_with_headers_def headers_or_empty_def
        example_sdk_config first_request_example io_bind_def io_lift_def
        paywall_response_status parse_paywall_response process_payment_example
        replay_request_example paid_result_def content_response_def paid_response_def
        paywall_terms_fields)

theorem payment_fields_iff_payment_required_witness:
  "payment_required paid_response
   \<and> payment_amount paid_response \<noteq> JNull
   \<and> transaction_hash paid_response \<noteq> None"
  using payment_fields_iff_payment_required [OF fetch_paid_example]
  by (simp add: paid_response_def)

theorem proof_header_is_payment_hash_witness:
  "\<exists>h r0 tr1 info tr2 pre raw.
     make_http_request (paywall_env 2000000 5000000 200) (config example_sdk) ''http://x'' ''GET''
         (headers_or_empty None) None [] = (Inr r0, tr1)
     \<and> parse_payment_info r0 = Inr info
     \<and> process_payment (paywall_env 2000000 5000000 200) example_sdk info tr1 = (Inr h, tr2)
     \<and> tr2 = pre @ [Send_raw_transaction raw (Inr h), Wait_for_transaction_receipt h (Inr ())]
     \<and> transaction_hash paid_response = Some h
     \<and> (\<forall>req r. Session_request req r
                   \<in> set (new_events tr2
                            (Session_request (example_request Map.empty) (Inr paywall_response)
                             # payment_events 2000000
                             @ [Session_request (example_request (auth_headers Map.empty ''0xabc''))
                                  (Inr (content_response 200))])) \<longrightarrow>
            req_headers req ''Authorization'' = Some (''Bearer '' @ h))
     \<and> (\<exists>req r1.
            last (Session_request (example_request Map.empty) (Inr paywall_response)
                  # payment_events 2000000
                  @ [Session_request (example_request (auth_headers Map.empty ''0xabc''))
                       (Inr (content_response 200))])
              = Session_request req (Inr r1)
            \<and> req_headers req ''Authorization'' = Some (''Bearer '' @ h)
            \<and> resp_status_code r1 = 200)"
  by (rule proof_header_is_payment_hash [OF fetch_paid_example]) (simp add: paid_response_def)

theorem failed_replay_raises_PaymentError_witness:
  "fetch_with_tachi (paywall_env 2000000 5000000 404) example_sdk ''http://x'' ''GET'' None None [] =
     (Inl (PaymentError [Lit ''Payment verification failed: '', Num 404]
             (VerificationDetails ''0xabc'' 404)),
      Session_request (example_request Map.empty) (Inr paywall_response)
      # payment_events 2000000
      @ [Session_request (example_request (auth_headers Map.empty ''0xabc''))
           (Inr (content_response 404))])"
proof -
  have first: "make_http_request (paywall_env 2000000 5000000 404) (config example_sdk)
                 ''http://x'' ''GET'' (headers_or_empty None) None [] =
                 (Inr paywall_response,
                  [Session_request (example_request Map.empty) (Inr paywall_response)])"
    using first_request_example [of 2000000 5000000 404 "[]"]
    by (simp add: example_sdk_config headers_or_empty_def)
  have pay: "process_payment (paywall_env 2000000 5000000 404) example_sdk paywall_terms
               [Session_request (example_request Map.empty) (Inr paywall_response)] =
               (Inr ''0xabc'',
                [Session_request (example_request Map.empty) (Inr paywall_response)]
                @ payment_events 2000000)"
    by (rule process_payment_example) simp
  have replay: "make_http_request (paywall_env 2000000 5000000 404) (config example_sdk)
                  ''http://x'' ''GET'' (auth_headers (headers_or_empty None) ''0xabc'') None
                  ([Session_request (example_request Map.empty) (Inr paywall_response)]
                   @ payment_events 2000000) =
                  (Inr (content_response 404),
                   ([Session_request (example_request Map.empty) (Inr paywall_response)]
                    @ payment_events 2000000)
                   @ [Session_request (example_request (auth_headers Map.empty ''0xabc''))
                        (Inr (content_response 404))])"
    using replay_request_example
            [of 2000000 5000000 404 "''0xabc''"
                "[Session_request (example_request Map.empty) (Inr paywall_response)]
                 @ payment_events 2000000"]
    by (simp add: example_sdk_config headers_or_empty_def)
  have status: "resp_status_code (content_response 404) \<noteq> 200"
    by (simp add: content_response_def)
  from failed_replay_raises_PaymentError
         [OF first paywall_response_status parse_paywall_response pay replay status]
  show ?thesis
    by (simp add: content_response_def)
qed

section \<open>A client without a signing key\<close>

text \<open>
  Claim C6, as the code has it. A client whose configuration has no private key (none,
  or an empty one) has no account, whether or not an account address is configured. Its
  payment step raises a \<open>PaymentError\<close> at once, before any call of the node, and so
  does its balance query, with a \<open>TachiError\<close> of code \<^verbatim>\<open>CONFIG_ERROR\<close>: the balance
  query needs the signing key as well.
\<close>

theorem no_private_key_no_payment_no_balance:
  assumes "private_key c = None \<or> private_key c = Some []"
    and "TachiSDK_init e c tr0 = (Inr sdk, tr1)"
  shows "account sdk = None
         \<and> process_payment e sdk info tr =
             (Inl (PaymentError
                     [Lit ''Account not initialized. Private key required for payments.'']
                     NoDetails), tr)
         \<and> get_usdc_balance e sdk tr =
             (Inl (TachiError [Lit ''Account not initialized. Private key required.'']
                     ''CONFIG_ERROR'' NoDetails), tr)"
proof -
  from assms have "account sdk = None"
    by (auto simp: TachiSDK_init_def io_bind_Inr io_lift_Inr io_return_def initialize_account_def)
  then show ?thesis
    by (simp add: process_payment_def get_usdc_balance_def io_raise_def)
qed

lemma readonly_init:
  "TachiSDK_init (paywall_env 2000000 0 200) readonly_config [] = (Inr readonly_sdk, [Is_connected True])"
  by (simp add: TachiSDK_init_def initialize_web3_def initialize_account_def io_bind_def
        io_lift_def io_return_def paywall_env_def readonly_config_def readonly_sdk_def)

theorem no_private_key_no_payment_no_balance_witness:
  "account_address readonly_config = Some ''0x1111111111111111111111111111111111111111''
   \<and> process_payment (paywall_env 2000000 0 200) readonly_sdk paywall_terms [Is_connected True] =
       (Inl (PaymentError
               [Lit ''Account not initialized. Private key required for payments.'']
               NoDetails), [Is_connected True])
   \<and> get_usdc_balance (paywall_env 2000000 0 200) readonly_sdk [Is_connected True] =
       (Inl (TachiError [Lit ''Account not initialized. Private key required.'']
               ''CONFIG_ERROR'' NoDetails), [Is_connected True])"
proof -
  have k: "private_key readonly_config = None \<or> private_key readonly_config = Some []"
    by (simp add: readonly_config_def)
  from no_private_key_no_payment_no_balance [OF k readonly_init]
  show ?thesis
    by (simp add: readonly_config_def)
qed

text \<open>
  The claim as the specification words it asks for a configuration error from the
  payment and for a balance from the client that has only an account address. The
  payment's error has the code \<^verbatim>\<open>PAYMENT_ERROR\<close>, and the balance query fails.
\<close>

theorem readonly_client_counterexample:
  "fst (TachiSDK_init (paywall_env 2000000 0 200) readonly_config []) = Inr readonly_sdk
   \<and> map_sum error_code id
        (fst (process_payment (paywall_env 2000000 0 200) readonly_sdk paywall_terms [Is_connected True]))
      = Inl (Some ''PAYMENT_ERROR'')
   \<and> map_sum error_code id
        (fst (process_payment (paywall_env 2000000 0 200) readonly_sdk paywall_terms [Is_connected True]))
      \<noteq> Inl (Some ''CONFIG_ERROR'')
   \<and> map_sum error_code wei
        (fst (get_usdc_balance (paywall_env 2000000 0 200) readonly_sdk [Is_connected True]))
      = Inl (Some ''CONFIG_ERROR'')"
  by (simp add: readonly_init process_payment_def get_usdc_balance_def io_raise_def
        readonly_sdk_def)

end
